theory Spec2Isabelle
  imports Complex_Main
begin

section \<open>Building simulator: data model\<close>

text \<open>
  The development follows \<^verbatim>\<open>src/simulators/building/simulator.py\<close>.
  Python floats are read as real numbers, so rounding, infinities and NaN are not part of
  the model. Every value the program obtains from outside a tick (the wall clock and the
  pseudo random generator) is an explicit input of the tick. Exceptions are values: a
  failing statement returns the exception together with the state as mutated so far.
\<close>

datatype py_exception = IndexError | ZeroDivisionError | TypeError | ValueError string

record BuildingState =
  outdoor_temp :: real
  is_occupied :: bool
  chilled_water_supply_temp :: real
  chilled_water_return_temp :: real
  hot_water_supply_temp :: real
  hot_water_return_temp :: real
  ahu_supply_air_temp :: real
  ahu_return_air_temp :: real
  ahu_mixed_air_temp :: real
  ahu_supply_air_flow :: real
  ahu_fan_speed :: real
  ahu_cooling_valve :: real
  ahu_heating_valve :: real
  ahu_supply_air_setpoint :: real
  vav_zone_temps :: "real list"
  vav_zone_setpoints :: "real list"
  vav_damper_positions :: "real list"
  vav_airflows :: "real list"
  vav_reheat_valves :: "real list"
  total_power :: real
  total_energy :: real

text \<open>\<^verbatim>\<open>BuildingState.__init__\<close>: the default values.\<close>

definition BuildingState_init :: BuildingState where
  "BuildingState_init = \<lparr>
     outdoor_temp = 85,
     is_occupied = True,
     chilled_water_supply_temp = 44,
     chilled_water_return_temp = 54,
     hot_water_supply_temp = 180,
     hot_water_return_temp = 160,
     ahu_supply_air_temp = 55,
     ahu_return_air_temp = 72,
     ahu_mixed_air_temp = 65,
     ahu_supply_air_flow = 12000,
     ahu_fan_speed = 75,
     ahu_cooling_valve = 50,
     ahu_heating_valve = 0,
     ahu_supply_air_setpoint = 55,
     vav_zone_temps = replicate 6 72,
     vav_zone_setpoints = replicate 6 72,
     vav_damper_positions = replicate 6 50,
     vav_airflows = replicate 6 2000,
     vav_reheat_valves = replicate 6 0,
     total_power = 0,
     total_energy = 0 \<rparr>"

text \<open>
  What one tick reads from outside: \<^verbatim>\<open>datetime.now()\<close> in
  \<^verbatim>\<open>is_business_hours\<close> and in \<^verbatim>\<open>update_outdoor_temp\<close>, and one raw draw of
  \<^verbatim>\<open>random.random()\<close> (a number in the half open unit interval) for every call of
  \<^verbatim>\<open>random.random\<close> and \<^verbatim>\<open>random.uniform\<close>, named after its call site.
\<close>

record TickInput =
  bh_weekday :: nat
  bh_hour :: nat
  ot_hour :: nat
  u_occupancy :: real
  u_outdoor :: real
  u_fan :: real
  u_zone :: "nat \<Rightarrow> real"
  u_chw_supply :: real
  u_chw_return :: real
  u_misc :: real
  u_voltage :: real

text \<open>\<^verbatim>\<open>random.uniform(a, b)\<close> is \<^verbatim>\<open>a + (b - a) * random()\<close>.\<close>

definition uniform :: "real \<Rightarrow> real \<Rightarrow> real \<Rightarrow> real" where
  "uniform a b u = a + (b - a) * u"

definition draws_ok :: "TickInput \<Rightarrow> bool" where
  "draws_ok e =
     (list_all (\<lambda>u. 0 \<le> u \<and> u < 1)
        ([u_occupancy e, u_outdoor e, u_fan e, u_chw_supply e, u_chw_return e,
          u_misc e, u_voltage e] @ map (u_zone e) [0..<6]))"

definition INTERVAL :: real where
  "INTERVAL = 5"

type_synonym outcome = "(py_exception \<times> BuildingState) + BuildingState"

text \<open>Statements in sequence: the first exception ends the run.\<close>

fun run_steps :: "('s \<Rightarrow> (py_exception \<times> 's) + 's) list \<Rightarrow> 's \<Rightarrow> (py_exception \<times> 's) + 's" where
  "run_steps [] s = Inr s"
| "run_steps (f # fs) s = (case f s of Inl x \<Rightarrow> Inl x | Inr s' \<Rightarrow> run_steps fs s')"

section \<open>Control loops of BuildingState\<close>

definition is_business_hours :: "TickInput \<Rightarrow> bool" where
  "is_business_hours e =
     (if bh_weekday e \<ge> 5 then False else 8 \<le> bh_hour e \<and> bh_hour e < 18)"

definition update_occupancy :: "TickInput \<Rightarrow> BuildingState \<Rightarrow> BuildingState" where
  "update_occupancy e s =
     (if is_business_hours e
      then s\<lparr>is_occupied := (u_occupancy e < 0.95)\<rparr>
      else s\<lparr>is_occupied := (u_occupancy e < 0.05)\<rparr>)"

definition update_outdoor_temp :: "TickInput \<Rightarrow> BuildingState \<Rightarrow> BuildingState" where
  "update_outdoor_temp e s =
     (let base_temp = 75;
          daily_swing = 15;
          s1 = s\<lparr>outdoor_temp := base_temp + daily_swing * sin ((real (ot_hour e) - 6) * pi / 12)\<rparr>
      in s1\<lparr>outdoor_temp := outdoor_temp s1 + uniform (-2) 2 (u_outdoor e)\<rparr>)"

definition update_ahu :: "TickInput \<Rightarrow> BuildingState \<Rightarrow> outcome" where
  "update_ahu e s =
     (let outdoor_damper = (if is_occupied s then 20 else 10);
          s1 = s\<lparr>ahu_mixed_air_temp :=
                  ahu_return_air_temp s * (100 - outdoor_damper) / 100
                  + outdoor_temp s * outdoor_damper / 100\<rparr>;
          temp_error = ahu_supply_air_temp s1 - ahu_supply_air_setpoint s1;
          s2 = s1\<lparr>ahu_cooling_valve := max 0 (min 100 (ahu_cooling_valve s1 + temp_error * 2))\<rparr>;
          cooling_effect = ahu_cooling_valve s2 * 0.3;
          s3 = s2\<lparr>ahu_supply_air_temp := ahu_mixed_air_temp s2 - cooling_effect\<rparr>
      in if length (vav_zone_temps s3) = 0 then Inl (ZeroDivisionError, s3)
         else
           let s4 = s3\<lparr>ahu_return_air_temp :=
                       sum_list (vav_zone_temps s3) / real (length (vav_zone_temps s3))\<rparr>;
               s5 = (if is_occupied s4
                     then s4\<lparr>ahu_fan_speed := 75 + uniform (-5) 5 (u_fan e)\<rparr>
                     else s4\<lparr>ahu_fan_speed := 40 + uniform (-5) 5 (u_fan e)\<rparr>)
           in Inr (s5\<lparr>ahu_supply_air_flow := ahu_fan_speed s5 * 160\<rparr>))"

text \<open>
  The body of the loop \<^verbatim>\<open>for i in range(6)\<close> of \<^verbatim>\<open>update_vavs\<close>, one
  definition for each of its assignments. An index beyond the end of a list raises
  \<^verbatim>\<open>IndexError\<close> at the statement that reads or writes it, and what the earlier
  statements assigned stays.
\<close>

definition zone_load :: "TickInput \<Rightarrow> BuildingState \<Rightarrow> nat \<Rightarrow> real" where
  "zone_load e s i =
     (let base_load = (if is_occupied s then 0.5 else 0.1);
          zone_load0 = base_load + uniform (-0.2) 0.2 (u_zone e i)
      in if i mod 2 = 0 then zone_load0 + 0.3 else zone_load0)"

definition vav_damper_step :: "nat \<Rightarrow> BuildingState \<Rightarrow> outcome" where
  "vav_damper_step i s =
     (if \<not> (i < length (vav_zone_temps s) \<and> i < length (vav_zone_setpoints s)
             \<and> i < length (vav_damper_positions s))
      then Inl (IndexError, s)
      else
        let temp_error = vav_zone_temps s ! i - vav_zone_setpoints s ! i
        in Inr (s\<lparr>vav_damper_positions := (vav_damper_positions s)
                   [i := max 20 (min 100 (vav_damper_positions s ! i + temp_error * 3))]\<rparr>))"

definition vav_airflow_step :: "nat \<Rightarrow> BuildingState \<Rightarrow> outcome" where
  "vav_airflow_step i s =
     (if \<not> (i < length (vav_damper_positions s) \<and> i < length (vav_airflows s))
      then Inl (IndexError, s)
      else Inr (s\<lparr>vav_airflows := (vav_airflows s)[i := vav_damper_positions s ! i * 30]\<rparr>))"

definition vav_temp_step :: "TickInput \<Rightarrow> nat \<Rightarrow> BuildingState \<Rightarrow> outcome" where
  "vav_temp_step e i s =
     (if \<not> (i < length (vav_airflows s) \<and> i < length (vav_zone_temps s))
      then Inl (IndexError, s)
      else
        let cooling_effect = (vav_airflows s ! i / 2000)
                             * (vav_zone_temps s ! i - ahu_supply_air_temp s) * 0.1;
            heat_gain = zone_load e s i * 2
        in Inr (s\<lparr>vav_zone_temps := (vav_zone_temps s)
                   [i := vav_zone_temps s ! i + (heat_gain - cooling_effect) * (INTERVAL / 60)]\<rparr>))"

definition vav_reheat_step :: "nat \<Rightarrow> BuildingState \<Rightarrow> outcome" where
  "vav_reheat_step i s =
     (if \<not> (i < length (vav_zone_temps s) \<and> i < length (vav_zone_setpoints s)
             \<and> i < length (vav_reheat_valves s))
      then Inl (IndexError, s)
      else if vav_zone_temps s ! i < vav_zone_setpoints s ! i - 1
      then Inr (s\<lparr>vav_reheat_valves := (vav_reheat_valves s)
                    [i := min 100 (vav_reheat_valves s ! i + 5)]\<rparr>)
      else Inr (s\<lparr>vav_reheat_valves := (vav_reheat_valves s)
                    [i := max 0 (vav_reheat_valves s ! i - 5)]\<rparr>))"

definition update_vav_zone :: "TickInput \<Rightarrow> nat \<Rightarrow> BuildingState \<Rightarrow> outcome" where
  "update_vav_zone e i s =
     run_steps [vav_damper_step i, vav_airflow_step i, vav_temp_step e i, vav_reheat_step i] s"

definition update_vavs :: "TickInput \<Rightarrow> BuildingState \<Rightarrow> outcome" where
  "update_vavs e s = run_steps (map (update_vav_zone e) [0..<6]) s"

definition update_chiller :: "TickInput \<Rightarrow> BuildingState \<Rightarrow> BuildingState" where
  "update_chiller e s =
     (let cooling_load = ahu_cooling_valve s * 100
      in if cooling_load > 50
         then s\<lparr>chilled_water_supply_temp := 42 + uniform (-1) 1 (u_chw_supply e),
                chilled_water_return_temp := 52 + uniform (-1) 1 (u_chw_return e)\<rparr>
         else s\<lparr>chilled_water_supply_temp := 44 + uniform (-1) 1 (u_chw_supply e),
                chilled_water_return_temp := 54 + uniform (-1) 1 (u_chw_return e)\<rparr>)"

text \<open>The four terms of \<^verbatim>\<open>update_power\<close>, named as its local variables.\<close>

definition ahu_power :: "BuildingState \<Rightarrow> real" where
  "ahu_power s = (ahu_fan_speed s / 100) ^ 3 * 15"

definition chiller_power :: "BuildingState \<Rightarrow> real" where
  "chiller_power s = (ahu_cooling_valve s / 100) * 80"

definition reheat_power :: "BuildingState \<Rightarrow> real" where
  "reheat_power s = sum_list (vav_reheat_valves s) / 100 * 2"

definition misc_power :: "TickInput \<Rightarrow> BuildingState \<Rightarrow> real" where
  "misc_power e s =
     (if is_occupied s then 50 + uniform (-5) 5 (u_misc e) else 10 + uniform (-2) 2 (u_misc e))"

definition update_power :: "TickInput \<Rightarrow> BuildingState \<Rightarrow> BuildingState" where
  "update_power e s =
     (let s1 = s\<lparr>total_power := ahu_power s + chiller_power s + reheat_power s + misc_power e s\<rparr>
      in s1\<lparr>total_energy := total_energy s1 + total_power s1 * (INTERVAL / 3600)\<rparr>)"

definition update :: "TickInput \<Rightarrow> BuildingState \<Rightarrow> outcome" where
  "update e s =
     run_steps
       [\<lambda>s. Inr (update_occupancy e s),
        \<lambda>s. Inr (update_outdoor_temp e s),
        update_ahu e,
        update_vavs e,
        \<lambda>s. Inr (update_chiller e s),
        \<lambda>s. Inr (update_power e s)] s"

text \<open>Any number of ticks, one input per tick, from a given state.\<close>

definition run_ticks :: "TickInput list \<Rightarrow> BuildingState \<Rightarrow> outcome" where
  "run_ticks es s = run_steps (map update es) s"


section \<open>Equipment profiles\<close>

text \<open>
  A BACnet object of the program, reduced to what the synchronisation reads and writes:
  its identifier, its present value and, for a commandable object, its priority array.
  Analog objects hold a number, binary objects one of the texts \<^verbatim>\<open>active\<close> and
  \<^verbatim>\<open>inactive\<close>. Names, units and descriptions are constant texts and are left out.
\<close>

datatype object_type = analogInput | analogValue | analogOutput | binaryInput | binaryOutput

datatype present_value = PVReal real | PVText string

record bacnet_object =
  objectIdentifier :: "object_type \<times> int"
  presentValue :: present_value
  priorityArray :: "present_value option list"

text \<open>
  The commandable classes of the program: \<^verbatim>\<open>CommandableAnalogValueObject\<close>, which is
  the class of all its analog values, and the local \<^verbatim>\<open>AnalogOutputObject\<close> and
  \<^verbatim>\<open>BinaryOutputObject\<close> of the library, which derive from \<^verbatim>\<open>Commandable\<close>. Such
  an object has a priority array of 16 slots, slot \<open>p - 1\<close> for priority \<open>p\<close>, all empty
  when the object is made.
\<close>

definition commandable_type :: "object_type \<Rightarrow> bool" where
  "commandable_type t = (t = analogValue \<or> t = analogOutput \<or> t = binaryOutput)"

definition local_object :: "object_type \<Rightarrow> int \<Rightarrow> present_value \<Rightarrow> bacnet_object" where
  "local_object t i v =
     \<lparr>objectIdentifier = (t, i), presentValue = v,
      priorityArray = (if commandable_type t then replicate 16 None else [])\<rparr>"

text \<open>
  The constructor of an object checks the instance number of the identifier, which has
  22 bits, and raises \<^verbatim>\<open>ValueError\<close> outside that range.
\<close>

definition new_object :: "object_type \<Rightarrow> int \<Rightarrow> present_value \<Rightarrow> py_exception + bacnet_object" where
  "new_object t i v =
     (if i < 0 \<or> 4194303 < i then Inl (ValueError ''instance out of range'')
      else Inr (local_object t i v))"

text \<open>
  Command prioritisation. A value written at priority \<open>p\<close> (1 the highest, 16 the
  lowest and the default) goes into slot \<open>p - 1\<close>, and the present value becomes the
  value of the first slot that is not empty; a priority outside 1 to 16 is refused. An
  assignment to \<^verbatim>\<open>presentValue\<close> from the program is a plain store on an object that
  is not commandable, and a write at the default priority on a commandable one: it does
  not displace a value commanded at a higher priority.
\<close>

definition command_object :: "nat \<Rightarrow> present_value \<Rightarrow> bacnet_object \<Rightarrow> bacnet_object" where
  "command_object p v ob =
     (if p < 1 \<or> 16 < p then ob
      else
        let pa = (priorityArray ob)[p - 1 := Some v]
        in case List.find (\<lambda>x. x \<noteq> None) pa of
             Some (Some w) \<Rightarrow> ob\<lparr>presentValue := w, priorityArray := pa\<rparr>
           | _ \<Rightarrow> ob\<lparr>priorityArray := pa\<rparr>)"

definition assign_present_value :: "present_value \<Rightarrow> bacnet_object \<Rightarrow> bacnet_object" where
  "assign_present_value v ob =
     (if commandable_type (fst (objectIdentifier ob)) then command_object 16 v ob
      else ob\<lparr>presentValue := v\<rparr>)"

datatype profile =
    AHUProfile
  | VAVProfile (zone_index: int) (floor: int) (zone_name: string)
  | ChillerProfile
  | MeterProfile

text \<open>Python list subscripts: a negative index counts from the end, \<open>None\<close> is IndexError.\<close>

definition py_index :: "'a list \<Rightarrow> int \<Rightarrow> nat option" where
  "py_index xs i =
     (let n = int (length xs);
          j = (if i < 0 then n + i else i)
      in if 0 \<le> j \<and> j < n then Some (nat j) else None)"

definition py_get :: "'a list \<Rightarrow> int \<Rightarrow> 'a option" where
  "py_get xs i = map_option (\<lambda>j. xs ! j) (py_index xs i)"

definition occupancy_text :: "BuildingState \<Rightarrow> string" where
  "occupancy_text s = (if is_occupied s then ''active'' else ''inactive'')"

text \<open>
  The lists of \<^verbatim>\<open>create_objects\<close>. The instance numbers of the air handler, the
  chiller and the meter are constants within the range, so their constructors return.
\<close>

definition AHU_create_objects :: "BuildingState \<Rightarrow> bacnet_object list" where
  "AHU_create_objects s =
     [local_object analogInput 1 (PVReal (ahu_supply_air_temp s)),
      local_object analogInput 2 (PVReal (ahu_return_air_temp s)),
      local_object analogInput 3 (PVReal (ahu_mixed_air_temp s)),
      local_object analogInput 4 (PVReal (ahu_supply_air_flow s)),
      local_object analogValue 1 (PVReal (ahu_supply_air_setpoint s)),
      local_object analogOutput 1 (PVReal (ahu_fan_speed s)),
      local_object analogOutput 2 (PVReal (ahu_cooling_valve s)),
      local_object binaryInput 1 (PVText ''active''),
      local_object binaryOutput 1 (PVText ''active'')]"

text \<open>
  The objects of a VAV are made one after the other: for each, the zone's entry is read
  (IndexError when the zone index is out of range) and then the constructor is called
  (ValueError when the instance number is). The first exception ends the construction,
  and no list of objects exists then.
\<close>

fun collect :: "('e + 'a) list \<Rightarrow> 'e + 'a list" where
  "collect [] = Inr []"
| "collect (r # rs) =
     (case r of
        Inl ex \<Rightarrow> Inl ex
      | Inr x \<Rightarrow> (case collect rs of Inl ex \<Rightarrow> Inl ex | Inr xs \<Rightarrow> Inr (x # xs)))"

definition zone_object ::
    "object_type \<Rightarrow> int \<Rightarrow> real list \<Rightarrow> int \<Rightarrow> py_exception + bacnet_object" where
  "zone_object t i xs zi =
     (case py_get xs zi of
        None \<Rightarrow> Inl IndexError
      | Some v \<Rightarrow> new_object t i (PVReal v))"

definition VAV_create_objects :: "int \<Rightarrow> BuildingState \<Rightarrow> py_exception + bacnet_object list" where
  "VAV_create_objects zi s =
     (let base_id = zi * 10
      in collect
           [zone_object analogInput (base_id + 1) (vav_zone_temps s) zi,
            zone_object analogValue (base_id + 1) (vav_zone_setpoints s) zi,
            zone_object analogOutput (base_id + 1) (vav_damper_positions s) zi,
            zone_object analogInput (base_id + 2) (vav_airflows s) zi,
            zone_object analogOutput (base_id + 2) (vav_reheat_valves s) zi,
            new_object binaryInput (base_id + 1) (PVText (occupancy_text s))])"

definition Chiller_create_objects :: "BuildingState \<Rightarrow> bacnet_object list" where
  "Chiller_create_objects s =
     [local_object analogInput 100 (PVReal (chilled_water_supply_temp s)),
      local_object analogInput 101 (PVReal (chilled_water_return_temp s)),
      local_object binaryInput 100 (PVText ''active''),
      local_object binaryOutput 100 (PVText ''active'')]"

definition Meter_create_objects :: "BuildingState \<Rightarrow> bacnet_object list" where
  "Meter_create_objects s =
     [local_object analogInput 200 (PVReal (total_power s)),
      local_object analogInput 201 (PVReal (total_energy s)),
      local_object analogInput 202 (PVReal 480)]"

fun create_objects :: "profile \<Rightarrow> BuildingState \<Rightarrow> py_exception + bacnet_object list" where
  "create_objects AHUProfile s = Inr (AHU_create_objects s)"
| "create_objects (VAVProfile zi fl nm) s = VAV_create_objects zi s"
| "create_objects ChillerProfile s = Inr (Chiller_create_objects s)"
| "create_objects MeterProfile s = Inr (Meter_create_objects s)"

text \<open>
  The statements of \<^verbatim>\<open>update_objects\<close> act on the state and on the list of objects.
  \<open>put_point k f\<close> is \<^verbatim>\<open>objects[k].presentValue = f(state)\<close>: the right hand side is
  evaluated first and may itself raise IndexError (\<open>f\<close> gives \<open>None\<close>); the
  assignment is that of the object's class.
\<close>

type_synonym sim = "BuildingState \<times> bacnet_object list"

type_synonym sim_outcome = "(py_exception \<times> sim) + sim"

definition put_point :: "nat \<Rightarrow> (BuildingState \<Rightarrow> present_value option) \<Rightarrow> sim \<Rightarrow> sim_outcome" where
  "put_point k f x =
     (case x of (s, objs) \<Rightarrow>
        (case f s of
           None \<Rightarrow> Inl (IndexError, x)
         | Some v \<Rightarrow>
             if k < length objs then Inr (s, objs[k := assign_present_value v (objs ! k)])
             else Inl (IndexError, x)))"

text \<open>
  \<open>take_point k g\<close> is the assignment of \<^verbatim>\<open>objects[k].presentValue\<close> to a field of the
  state; \<open>g\<close> stores the number and gives \<open>None\<close> when the store raises IndexError.
  The state's fields are numbers: a text in that slot is outside the typed model and shows
  as TypeError (the slots read this way always hold analog value objects).
\<close>

definition take_point :: "nat \<Rightarrow> (real \<Rightarrow> BuildingState \<Rightarrow> BuildingState option) \<Rightarrow> sim \<Rightarrow> sim_outcome" where
  "take_point k g x =
     (case x of (s, objs) \<Rightarrow>
        if \<not> k < length objs then Inl (IndexError, x)
        else (case presentValue (objs ! k) of
                PVText _ \<Rightarrow> Inl (TypeError, x)
              | PVReal v \<Rightarrow>
                  (case g v s of None \<Rightarrow> Inl (IndexError, x) | Some s' \<Rightarrow> Inr (s', objs))))"

definition real_field :: "(BuildingState \<Rightarrow> real) \<Rightarrow> BuildingState \<Rightarrow> present_value option" where
  "real_field f s = Some (PVReal (f s))"

definition zone_field :: "(BuildingState \<Rightarrow> real list) \<Rightarrow> int \<Rightarrow> BuildingState \<Rightarrow> present_value option" where
  "zone_field f zi s = map_option PVReal (py_get (f s) zi)"

definition set_zone_setpoint :: "int \<Rightarrow> real \<Rightarrow> BuildingState \<Rightarrow> BuildingState option" where
  "set_zone_setpoint zi v s =
     map_option (\<lambda>j. s\<lparr>vav_zone_setpoints := (vav_zone_setpoints s)[j := v]\<rparr>)
       (py_index (vav_zone_setpoints s) zi)"

fun update_objects :: "TickInput \<Rightarrow> profile \<Rightarrow> sim \<Rightarrow> sim_outcome" where
  "update_objects e AHUProfile x =
     run_steps
       [put_point 0 (real_field ahu_supply_air_temp),
        put_point 1 (real_field ahu_return_air_temp),
        put_point 2 (real_field ahu_mixed_air_temp),
        put_point 3 (real_field ahu_supply_air_flow),
        take_point 4 (\<lambda>v s. Some (s\<lparr>ahu_supply_air_setpoint := v\<rparr>)),
        put_point 5 (real_field ahu_fan_speed),
        put_point 6 (real_field ahu_cooling_valve)] x"
| "update_objects e (VAVProfile zi fl nm) x =
     run_steps
       [put_point 0 (zone_field vav_zone_temps zi),
        take_point 1 (set_zone_setpoint zi),
        put_point 2 (zone_field vav_damper_positions zi),
        put_point 3 (zone_field vav_airflows zi),
        put_point 4 (zone_field vav_reheat_valves zi),
        put_point 5 (\<lambda>s. Some (PVText (occupancy_text s)))] x"
| "update_objects e ChillerProfile x =
     run_steps
       [put_point 0 (real_field chilled_water_supply_temp),
        put_point 1 (real_field chilled_water_return_temp)] x"
| "update_objects e MeterProfile x =
     run_steps
       [put_point 0 (real_field total_power),
        put_point 1 (real_field total_energy),
        put_point 2 (\<lambda>s. Some (PVReal (480 + uniform (-5) 5 (u_voltage e))))] x"

text \<open>
  Writes of the point exposure service between two ticks. \<open>write_point k v\<close> is a write
  after which \<open>v\<close> is the present value of point \<open>k\<close>; \<open>command_point k p v\<close> is a
  write of \<open>v\<close> at priority \<open>p\<close>, which the priority array of the point arbitrates.
\<close>

definition write_point :: "nat \<Rightarrow> real \<Rightarrow> bacnet_object list \<Rightarrow> bacnet_object list" where
  "write_point k v objs = objs[k := (objs ! k)\<lparr>presentValue := PVReal v\<rparr>]"

definition command_point :: "nat \<Rightarrow> nat \<Rightarrow> real \<Rightarrow> bacnet_object list \<Rightarrow> bacnet_object list" where
  "command_point k p v objs = objs[k := command_object p (PVReal v) (objs ! k)]"


section \<open>The simulator: construction and update loop\<close>

text \<open>
  Python's \<^verbatim>\<open>int(text)\<close> on ASCII text: surrounding white space (tab, line feed,
  vertical tab, form feed, carriage return, space) is dropped, one sign
  is allowed, then decimal digits, where single underscores may stand between digits.
  \<open>None\<close> is the ValueError of an invalid literal.
\<close>

definition is_py_space :: "char \<Rightarrow> bool" where
  "is_py_space c = (of_char c \<in> {9::nat, 10, 11, 12, 13, 32})"

definition is_digit :: "char \<Rightarrow> bool" where
  "is_digit c = (48 \<le> (of_char c :: nat) \<and> (of_char c :: nat) \<le> 57)"

definition digit_value :: "char \<Rightarrow> nat" where
  "digit_value c = of_char c - 48"

definition py_strip :: "string \<Rightarrow> string" where
  "py_strip s = rev (dropWhile is_py_space (rev (dropWhile is_py_space s)))"

fun parse_digits :: "nat \<Rightarrow> string \<Rightarrow> nat option" where
  "parse_digits acc [] = Some acc"
| "parse_digits acc [c] = (if is_digit c then Some (acc * 10 + digit_value c) else None)"
| "parse_digits acc (c # d # cs) =
     (if is_digit c then parse_digits (acc * 10 + digit_value c) (d # cs)
      else if c = CHR ''_'' \<and> is_digit d then parse_digits (acc * 10 + digit_value d) cs
      else None)"

definition parse_unsigned :: "string \<Rightarrow> nat option" where
  "parse_unsigned s =
     (case s of [] \<Rightarrow> None
      | c # cs \<Rightarrow> if is_digit c then parse_digits (digit_value c) cs else None)"

definition py_int :: "string \<Rightarrow> int option" where
  "py_int s =
     (case py_strip s of
        [] \<Rightarrow> None
      | c # cs \<Rightarrow>
          if c = CHR ''-'' then map_option (\<lambda>n. - int n) (parse_unsigned cs)
          else if c = CHR ''+'' then map_option int (parse_unsigned cs)
          else map_option int (parse_unsigned (c # cs)))"

datatype log_entry =
    Info_initialized string nat
  | Info_status
  | Error_in_update_loop py_exception

text \<open>
  The simulator object. \<open>app_objects\<close> are the identifiers registered with the BACnet
  application by \<^verbatim>\<open>add_object\<close>; \<open>logged\<close> is what went to the logger.
\<close>

record BuildingSimulator =
  state :: BuildingState
  equipment_type :: string
  profile :: profile
  objects :: "bacnet_object list"
  app_objects :: "(object_type \<times> int) list"
  logged :: "log_entry list"

text \<open>The branch of \<^verbatim>\<open>BuildingSimulator.__init__\<close> that selects the profile.\<close>

definition select_profile :: "string \<Rightarrow> py_exception + profile" where
  "select_profile et =
     (if et = ''ahu'' then Inr AHUProfile
      else if take 3 et = ''vav'' then
        (case py_int (drop 3 et) of
           None \<Rightarrow> Inl (ValueError (''invalid literal for int() with base 10: '' @ drop 3 et))
         | Some zi \<Rightarrow>
             let fl = (zi div 2) + 1;
                 nm = (if zi mod 2 = 0 then ''North'' else ''South'')
             in Inr (VAVProfile zi fl nm))
      else if et = ''chiller'' then Inr ChillerProfile
      else if et = ''meter'' then Inr MeterProfile
      else Inl (ValueError (''Unknown equipment type: '' @ et)))"

text \<open>
  \<^verbatim>\<open>BuildingSimulator.__init__\<close>. An exception comes with the identifiers registered
  with the application up to then.
\<close>

definition BuildingSimulator_init ::
    "string \<Rightarrow> (py_exception \<times> (object_type \<times> int) list) + BuildingSimulator" where
  "BuildingSimulator_init et =
     (let s = BuildingState_init
      in case select_profile et of
           Inl ex \<Rightarrow> Inl (ex, [])
         | Inr p \<Rightarrow>
             (case create_objects p s of
                Inl ex \<Rightarrow> Inl (ex, [])
              | Inr objs \<Rightarrow>
                  Inr \<lparr>state = s, equipment_type = et, profile = p, objects = objs,
                       app_objects = map objectIdentifier objs,
                       logged = [Info_initialized et (length objs)]\<rparr>))"

text \<open>
  The body of the \<^verbatim>\<open>try\<close> in \<^verbatim>\<open>update_loop\<close>: the physics, the synchronisation of
  the objects, the status line. The text of the status line is not modelled, what it
  reads is.
\<close>

type_synonym loop_outcome = "(py_exception \<times> BuildingSimulator) + BuildingSimulator"

definition physics_step :: "TickInput \<Rightarrow> BuildingSimulator \<Rightarrow> loop_outcome" where
  "physics_step e b =
     (case update e (state b) of
        Inl (ex, s') \<Rightarrow> Inl (ex, b\<lparr>state := s'\<rparr>)
      | Inr s' \<Rightarrow> Inr (b\<lparr>state := s'\<rparr>))"

definition sync_step :: "TickInput \<Rightarrow> BuildingSimulator \<Rightarrow> loop_outcome" where
  "sync_step e b =
     (case update_objects e (profile b) (state b, objects b) of
        Inl (ex, (s', objs')) \<Rightarrow> Inl (ex, b\<lparr>state := s', objects := objs'\<rparr>)
      | Inr (s', objs') \<Rightarrow> Inr (b\<lparr>state := s', objects := objs'\<rparr>))"

definition status_step :: "BuildingSimulator \<Rightarrow> loop_outcome" where
  "status_step b =
     (let et = equipment_type b; s = state b
      in if et = ''ahu'' then Inr (b\<lparr>logged := logged b @ [Info_status]\<rparr>)
         else if take 3 et = ''vav'' then
           (case py_int (drop 3 et) of
              None \<Rightarrow> Inl (ValueError (''invalid literal for int() with base 10: '' @ drop 3 et), b)
            | Some idx \<Rightarrow>
                (case (py_get (vav_zone_temps s) idx, py_get (vav_zone_setpoints s) idx,
                       py_get (vav_damper_positions s) idx, py_get (vav_airflows s) idx) of
                   (Some _, Some _, Some _, Some _) \<Rightarrow> Inr (b\<lparr>logged := logged b @ [Info_status]\<rparr>)
                 | _ \<Rightarrow> Inl (IndexError, b)))
         else if et = ''chiller'' then Inr (b\<lparr>logged := logged b @ [Info_status]\<rparr>)
         else if et = ''meter'' then Inr (b\<lparr>logged := logged b @ [Info_status]\<rparr>)
         else Inr b)"

definition loop_body :: "TickInput \<Rightarrow> BuildingSimulator \<Rightarrow> loop_outcome" where
  "loop_body e b = run_steps [physics_step e, sync_step e, status_step] b"

text \<open>
  One iteration: \<^verbatim>\<open>try: ... except Exception as e: logger.error(...)\<close>. Every exception
  of the model is a subclass of \<^verbatim>\<open>Exception\<close>. The handler only logs.
\<close>

definition update_loop_iteration :: "TickInput \<Rightarrow> BuildingSimulator \<Rightarrow> BuildingSimulator" where
  "update_loop_iteration e b =
     (case loop_body e b of
        Inr b' \<Rightarrow> b'
      | Inl (ex, b') \<Rightarrow> b'\<lparr>logged := logged b' @ [Error_in_update_loop ex]\<rparr>)"

text \<open>
  \<^verbatim>\<open>while True\<close> with a sleep of \<^verbatim>\<open>INTERVAL\<close> seconds: the loop itself never ends,
  so a run is given by the inputs of the ticks that have come so far.
\<close>

fun update_loop :: "TickInput list \<Rightarrow> BuildingSimulator \<Rightarrow> BuildingSimulator" where
  "update_loop [] b = b"
| "update_loop (e # es) b = update_loop es (update_loop_iteration e b)"

section \<open>Auxiliary notions for the proofs\<close>

text \<open>
  Notions used to state and prove the properties: \<open>zones_ok\<close> says that the five zone
  lists have their six entries, as the constructor makes them; \<open>zone_damper\<close>,
  \<open>zone_temp_next\<close> and \<open>zone_reheat_next\<close> are the values that one pass of the zone
  loop assigns to zone \<open>i\<close>, and \<open>vavs_after e s n\<close> is the state after the first
  \<open>n\<close> passes; \<open>the_state\<close> is the state an outcome carries, raised or not. The
  remaining definitions are concrete inputs: \<open>quiet_tick wd h\<close> is a tick on weekday
  \<open>wd\<close> at hour \<open>h\<close> in which every random draw is one half, so that every
  \<^verbatim>\<open>random.uniform\<close> noise term is zero.
\<close>

definition zones_ok :: "BuildingState \<Rightarrow> bool" where
  "zones_ok s =
     (length (vav_zone_temps s) = 6 \<and> length (vav_zone_setpoints s) = 6 \<and>
      length (vav_damper_positions s) = 6 \<and> length (vav_airflows s) = 6 \<and>
      length (vav_reheat_valves s) = 6)"

definition zone_damper :: "BuildingState \<Rightarrow> nat \<Rightarrow> real" where
  "zone_damper s i =
     max 20 (min 100 (vav_damper_positions s ! i
                        + (vav_zone_temps s ! i - vav_zone_setpoints s ! i) * 3))"

definition zone_temp_next :: "TickInput \<Rightarrow> BuildingState \<Rightarrow> nat \<Rightarrow> real" where
  "zone_temp_next e s i =
     vav_zone_temps s ! i
     + (zone_load e s i * 2
        - (zone_damper s i * 30 / 2000) * (vav_zone_temps s ! i - ahu_supply_air_temp s) * 0.1)
       * (INTERVAL / 60)"

definition zone_reheat_next :: "TickInput \<Rightarrow> BuildingState \<Rightarrow> nat \<Rightarrow> real" where
  "zone_reheat_next e s i =
     (if zone_temp_next e s i < vav_zone_setpoints s ! i - 1
      then min 100 (vav_reheat_valves s ! i + 5)
      else max 0 (vav_reheat_valves s ! i - 5))"

definition vavs_after :: "TickInput \<Rightarrow> BuildingState \<Rightarrow> nat \<Rightarrow> BuildingState" where
  "vavs_after e s n =
     s\<lparr>vav_damper_positions :=
         map (\<lambda>i. if i < n then zone_damper s i else vav_damper_positions s ! i) [0..<6],
       vav_airflows :=
         map (\<lambda>i. if i < n then zone_damper s i * 30 else vav_airflows s ! i) [0..<6],
       vav_zone_temps :=
         map (\<lambda>i. if i < n then zone_temp_next e s i else vav_zone_temps s ! i) [0..<6],
       vav_reheat_valves :=
         map (\<lambda>i. if i < n then zone_reheat_next e s i else vav_reheat_valves s ! i) [0..<6]\<rparr>"

text \<open>
  The ranges of the damper positions, the cooling valve and the reheat valves.
\<close>

definition valves_in_range :: "BuildingState \<Rightarrow> bool" where
  "valves_in_range s =
     (list_all (\<lambda>d. 20 \<le> d \<and> d \<le> 100) (vav_damper_positions s) \<and>
      0 \<le> ahu_cooling_valve s \<and> ahu_cooling_valve s \<le> 100 \<and>
      list_all (\<lambda>r. 0 \<le> r \<and> r \<le> 100) (vav_reheat_valves s))"

definition state_inv :: "BuildingState \<Rightarrow> bool" where
  "state_inv s = (zones_ok s \<and> valves_in_range s)"

definition quiet_tick :: "nat \<Rightarrow> nat \<Rightarrow> TickInput" where
  "quiet_tick wd h =
     \<lparr>bh_weekday = wd, bh_hour = h, ot_hour = h, u_occupancy = 1/2, u_outdoor = 1/2,
      u_fan = 1/2, u_zone = (\<lambda>_. 1/2), u_chw_supply = 1/2, u_chw_return = 1/2,
      u_misc = 1/2, u_voltage = 1/2\<rparr>"

text \<open>
  Along the run of the ticks \<open>es\<close> from \<open>s\<close>, no tick raises and after each of them
  zone \<open>i\<close> is at or above its setpoint minus one.
\<close>

fun zone_stays_warm :: "nat \<Rightarrow> TickInput list \<Rightarrow> BuildingState \<Rightarrow> bool" where
  "zone_stays_warm i [] s = True"
| "zone_stays_warm i (e # es) s =
     (case update e s of
        Inl _ \<Rightarrow> False
      | Inr s' \<Rightarrow> \<not> (vav_zone_temps s' ! i < vav_zone_setpoints s' ! i - 1)
                 \<and> zone_stays_warm i es s')"

text \<open>
  The default state with every reheat valve at 12.
\<close>

definition cool_start :: BuildingState where
  "cool_start = BuildingState_init\<lparr>vav_reheat_valves := replicate 6 12\<rparr>"

definition the_state :: "(py_exception \<times> 's) + 's \<Rightarrow> 's" where
  "the_state r = (case r of Inl (ex, s) \<Rightarrow> s | Inr s \<Rightarrow> s)"

text \<open>
  The objects the air handler profile and the profile of zone 3 create on the default state.
\<close>

definition ahu_points :: "bacnet_object list" where
  "ahu_points = AHU_create_objects BuildingState_init"

definition vav3_points :: "bacnet_object list" where
  "vav3_points = projr (VAV_create_objects 3 BuildingState_init)"

text \<open>
  What a synchronisation may change in the state: for the air handler the supply air
  setpoint, for a VAV the entry of the zone setpoints that its zone index selects.
\<close>

definition ahu_frame :: "BuildingState \<Rightarrow> BuildingState \<Rightarrow> bool" where
  "ahu_frame s s' = (s' = s\<lparr>ahu_supply_air_setpoint := ahu_supply_air_setpoint s'\<rparr>)"

definition vav_frame :: "int \<Rightarrow> BuildingState \<Rightarrow> BuildingState \<Rightarrow> bool" where
  "vav_frame zi s s' =
     (s' = s\<lparr>vav_zone_setpoints := vav_zone_setpoints s'\<rparr>
      \<and> length (vav_zone_setpoints s') = length (vav_zone_setpoints s)
      \<and> (\<forall>j < length (vav_zone_setpoints s').
            py_index (vav_zone_setpoints s) zi \<noteq> Some j
            \<longrightarrow> vav_zone_setpoints s' ! j = vav_zone_setpoints s ! j))"

definition chiller_points_disabled :: "bacnet_object list" where
  "chiller_points_disabled =
     (Chiller_create_objects BuildingState_init)
       [3 := command_object 8 (PVText ''inactive'') (Chiller_create_objects BuildingState_init ! 3)]"

text \<open>
  The selectors the program documents, in the help text of its \<^verbatim>\<open>--equipment\<close>
  argument: \<^verbatim>\<open>ahu, vav0-5, chiller, meter\<close>.
\<close>

definition equipment_selectors :: "string list" where
  "equipment_selectors =
     [''ahu'', ''vav0'', ''vav1'', ''vav2'', ''vav3'', ''vav4'', ''vav5'', ''chiller'', ''meter'']"

text \<open>
  Two simulators on which an iteration raises: one whose list of zone temperatures is
  empty, so that the mean in \<^verbatim>\<open>update_ahu\<close> divides by zero after three fields were
  assigned, and one whose list of objects ends after the setpoint point, so that the
  synchronisation raises IndexError at the fan speed point.
\<close>

definition broken_sim :: BuildingSimulator where
  "broken_sim =
     \<lparr>state = BuildingState_init\<lparr>vav_zone_temps := []\<rparr>, equipment_type = ''ahu'',
      profile = AHUProfile, objects = ahu_points,
      app_objects = map objectIdentifier ahu_points, logged = []\<rparr>"

definition zero_div_state :: BuildingState where
  "zero_div_state =
     BuildingState_init\<lparr>vav_zone_temps := [], outdoor_temp := 90, ahu_mixed_air_temp := 75.6,
       ahu_cooling_valve := 50, ahu_supply_air_temp := 60.6\<rparr>"

definition short_sim :: BuildingSimulator where
  "short_sim =
     \<lparr>state = BuildingState_init, equipment_type = ''ahu'',
      profile = AHUProfile, objects = take 5 ahu_points,
      app_objects = map objectIdentifier (take 5 ahu_points), logged = []\<rparr>"

definition noon_state :: BuildingState where
  "noon_state = the_state (update (quiet_tick 0 12) BuildingState_init)"

definition short_sync :: "BuildingState \<times> bacnet_object list" where
  "short_sync =
     (noon_state\<lparr>ahu_supply_air_setpoint := 55\<rparr>,
      [local_object analogInput 1 (PVReal (ahu_supply_air_temp noon_state)),
       local_object analogInput 2 (PVReal (ahu_return_air_temp noon_state)),
       local_object analogInput 3 (PVReal (ahu_mixed_air_temp noon_state)),
       local_object analogInput 4 (PVReal (ahu_supply_air_flow noon_state)),
       local_object analogValue 1 (PVReal 55)])"

text \<open>
  The value in force on an object by a command above the default priority, that is in
  one of the first 15 slots of its priority array; and the shape of an analog output
  object as the program creates it.
\<close>

definition commanded_above_default :: "bacnet_object \<Rightarrow> present_value option" where
  "commanded_above_default ob =
     (case List.find (\<lambda>x. x \<noteq> None) (take 15 (priorityArray ob)) of
        Some (Some w) \<Rightarrow> Some w
      | _ \<Rightarrow> None)"

definition analog_output :: "bacnet_object \<Rightarrow> bool" where
  "analog_output ob =
     (fst (objectIdentifier ob) = analogOutput \<and> length (priorityArray ob) = 16)"

text \<open>
  The objects of the air handler after two writes from outside: 100 to the fan speed
  point at priority 8, and 0 to the cooling valve point at the default priority.
\<close>

definition commanded_points :: "bacnet_object list" where
  "commanded_points = command_point 5 8 100 (command_point 6 16 0 ahu_points)"

section \<open>Properties\<close>

lemma zone_load_cong:
  "is_occupied s' = is_occupied s \<Longrightarrow> zone_load e s' i = zone_load e s i"
  by (simp add: zone_load_def)

lemma update_vav_zone_ok:
  assumes "i < length (vav_zone_temps s)" "i < length (vav_zone_setpoints s)"
    "i < length (vav_damper_positions s)" "i < length (vav_airflows s)"
    "i < length (vav_reheat_valves s)"
  shows "update_vav_zone e i s =
     Inr (s\<lparr>vav_damper_positions := (vav_damper_positions s)[i := zone_damper s i],
            vav_airflows := (vav_airflows s)[i := zone_damper s i * 30],
            vav_zone_temps := (vav_zone_temps s)[i := zone_temp_next e s i],
            vav_reheat_valves := (vav_reheat_valves s)[i := zone_reheat_next e s i]\<rparr>)"
proof -
  let ?s1 = "s\<lparr>vav_damper_positions := (vav_damper_positions s)[i := zone_damper s i]\<rparr>"
  let ?s2 = "?s1\<lparr>vav_airflows := (vav_airflows s)[i := zone_damper s i * 30]\<rparr>"
  let ?s3 = "?s2\<lparr>vav_zone_temps := (vav_zone_temps s)[i := zone_temp_next e s i]\<rparr>"
  have 1: "vav_damper_step i s = Inr ?s1"
    using assms by (simp add: vav_damper_step_def zone_damper_def)
  have 2: "vav_airflow_step i ?s1 = Inr ?s2"
    using assms by (simp add: vav_airflow_step_def)
  have 3: "vav_temp_step e i ?s2 = Inr ?s3"
    using assms by (simp add: vav_temp_step_def zone_temp_next_def zone_load_def)
  have 4: "vav_reheat_step i ?s3 =
     Inr (?s3\<lparr>vav_reheat_valves := (vav_reheat_valves s)[i := zone_reheat_next e s i]\<rparr>)"
    using assms by (simp add: vav_reheat_step_def zone_reheat_next_def)
  show ?thesis
    unfolding update_vav_zone_def by (simp add: 1 2 3 4)
qed

lemma run_steps_append:
  "run_steps (fs @ gs) s = (case run_steps fs s of Inl x \<Rightarrow> Inl x | Inr s' \<Rightarrow> run_steps gs s')"
  by (induction fs arbitrary: s) (auto split: sum.splits)

lemma map_upt_update:
  assumes "n < m"
  shows "(map (\<lambda>i. if i < n then f i else g i) [0..<m])[n := f n]
         = map (\<lambda>i. if i < Suc n then f i else g i) [0..<m]"
  using assms by (intro nth_equalityI) (auto simp: nth_list_update less_Suc_eq)

lemma map_upt_nth_id: "length xs = m \<Longrightarrow> map (\<lambda>i. xs ! i) [0..<m] = xs"
  by (intro nth_equalityI) auto

lemma vavs_after_0: "zones_ok s \<Longrightarrow> vavs_after e s 0 = s"
  by (simp add: vavs_after_def zones_ok_def map_upt_nth_id)

lemma vavs_after_Suc:
  assumes "zones_ok s" "n < 6"
  shows "update_vav_zone e n (vavs_after e s n) = Inr (vavs_after e s (Suc n))"
proof -
  let ?s1 = "vavs_after e s n"
  have zd: "zone_damper ?s1 n = zone_damper s n"
    using assms by (simp add: zone_damper_def vavs_after_def)
  have zt: "zone_temp_next e ?s1 n = zone_temp_next e s n"
    unfolding zone_temp_next_def zd using assms
    by (simp add: vavs_after_def zone_load_def)
  have zr: "zone_reheat_next e ?s1 n = zone_reheat_next e s n"
    unfolding zone_reheat_next_def zt using assms
    by (simp add: vavs_after_def)
  have "update_vav_zone e n ?s1 =
     Inr (?s1\<lparr>vav_damper_positions := (vav_damper_positions ?s1)[n := zone_damper ?s1 n],
            vav_airflows := (vav_airflows ?s1)[n := zone_damper ?s1 n * 30],
            vav_zone_temps := (vav_zone_temps ?s1)[n := zone_temp_next e ?s1 n],
            vav_reheat_valves := (vav_reheat_valves ?s1)[n := zone_reheat_next e ?s1 n]\<rparr>)"
    using assms by (intro update_vav_zone_ok) (simp_all add: vavs_after_def zones_ok_def)
  also have "\<dots> = Inr (vavs_after e s (Suc n))"
    unfolding zd zt zr using assms
    by (simp add: vavs_after_def
        map_upt_update[of n 6 "zone_damper s"]
        map_upt_update[of n 6 "\<lambda>i. zone_damper s i * 30"]
        map_upt_update[of n 6 "zone_temp_next e s"]
        map_upt_update[of n 6 "zone_reheat_next e s"])
  finally show ?thesis .
qed

lemma vavs_prefix:
  assumes "zones_ok s"
  shows "n \<le> 6 \<Longrightarrow> run_steps (map (update_vav_zone e) [0..<n]) s = Inr (vavs_after e s n)"
proof (induction n)
  case 0
  show ?case using assms by (simp add: vavs_after_0)
next
  case (Suc n)
  then show ?case using assms by (simp add: run_steps_append vavs_after_Suc)
qed

lemma update_vavs_ok: "zones_ok s \<Longrightarrow> update_vavs e s = Inr (vavs_after e s 6)"
  unfolding update_vavs_def by (rule vavs_prefix) simp_all

lemma update_ahu_ok:
  assumes "vav_zone_temps s \<noteq> []"
  shows "\<exists>s'. update_ahu e s = Inr s'
    \<and> vav_zone_temps s' = vav_zone_temps s \<and> vav_zone_setpoints s' = vav_zone_setpoints s
    \<and> vav_damper_positions s' = vav_damper_positions s \<and> vav_airflows s' = vav_airflows s
    \<and> vav_reheat_valves s' = vav_reheat_valves s
    \<and> is_occupied s' = is_occupied s \<and> total_energy s' = total_energy s
    \<and> 0 \<le> ahu_cooling_valve s' \<and> ahu_cooling_valve s' \<le> 100
    \<and> ahu_fan_speed s' = (if is_occupied s then 75 else 40) + uniform (-5) 5 (u_fan e)
    \<and> ahu_mixed_air_temp s' =
        ahu_return_air_temp s * (100 - (if is_occupied s then 20 else 10)) / 100
        + outdoor_temp s * (if is_occupied s then 20 else 10) / 100"
  using assms by (simp add: update_ahu_def Let_def)

lemma vavs_after_fields:
  "is_occupied (vavs_after e s n) = is_occupied s"
  "total_energy (vavs_after e s n) = total_energy s"
  "ahu_cooling_valve (vavs_after e s n) = ahu_cooling_valve s"
  "ahu_fan_speed (vavs_after e s n) = ahu_fan_speed s"
  "ahu_mixed_air_temp (vavs_after e s n) = ahu_mixed_air_temp s"
  "vav_zone_setpoints (vavs_after e s n) = vav_zone_setpoints s"
  by (simp_all add: vavs_after_def)

lemma vavs_after_ok: "zones_ok s \<Longrightarrow> zones_ok (vavs_after e s n)"
  by (simp add: vavs_after_def zones_ok_def)

lemma update_unfold:
  assumes "zones_ok s"
  shows "\<exists>sa. update_ahu e (update_outdoor_temp e (update_occupancy e s)) = Inr sa
     \<and> zones_ok sa
     \<and> update e s = Inr (update_power e (update_chiller e (vavs_after e sa 6)))"
proof -
  let ?s0 = "update_outdoor_temp e (update_occupancy e s)"
  have l0: "vav_zone_temps ?s0 = vav_zone_temps s" "vav_zone_setpoints ?s0 = vav_zone_setpoints s"
    "vav_damper_positions ?s0 = vav_damper_positions s" "vav_airflows ?s0 = vav_airflows s"
    "vav_reheat_valves ?s0 = vav_reheat_valves s"
    by (simp_all add: update_outdoor_temp_def update_occupancy_def Let_def)
  have "vav_zone_temps ?s0 \<noteq> []" using assms unfolding l0 zones_ok_def by auto
  from update_ahu_ok[OF this, of e] obtain sa where
    sa: "update_ahu e ?s0 = Inr sa" and
    l1: "vav_zone_temps sa = vav_zone_temps ?s0" "vav_zone_setpoints sa = vav_zone_setpoints ?s0"
      "vav_damper_positions sa = vav_damper_positions ?s0" "vav_airflows sa = vav_airflows ?s0"
      "vav_reheat_valves sa = vav_reheat_valves ?s0"
    by blast
  have ok: "zones_ok sa" using assms unfolding zones_ok_def l1 l0 .
  have "update e s = Inr (update_power e (update_chiller e (vavs_after e sa 6)))"
    unfolding update_def by (simp add: sa update_vavs_ok[OF ok])
  with sa ok show ?thesis by blast
qed

lemma zone_damper_range: "20 \<le> zone_damper s i \<and> zone_damper s i \<le> 100"
  by (simp add: zone_damper_def max_def min_def)

lemma zone_reheat_next_range:
  assumes "0 \<le> vav_reheat_valves s ! i" "vav_reheat_valves s ! i \<le> 100"
  shows "0 \<le> zone_reheat_next e s i \<and> zone_reheat_next e s i \<le> 100"
  using assms by (simp add: zone_reheat_next_def max_def min_def)

lemma list_all_map_upt: "list_all P (map f [0..<n]) = (\<forall>i<n. P (f i))"
  by (auto simp: list_all_iff)

lemma power_chiller_fields:
  "vav_damper_positions (update_power e (update_chiller e s)) = vav_damper_positions s"
  "vav_reheat_valves (update_power e (update_chiller e s)) = vav_reheat_valves s"
  "vav_zone_temps (update_power e (update_chiller e s)) = vav_zone_temps s"
  "vav_zone_setpoints (update_power e (update_chiller e s)) = vav_zone_setpoints s"
  "vav_airflows (update_power e (update_chiller e s)) = vav_airflows s"
  "ahu_cooling_valve (update_power e (update_chiller e s)) = ahu_cooling_valve s"
  "ahu_fan_speed (update_power e (update_chiller e s)) = ahu_fan_speed s"
  "ahu_mixed_air_temp (update_power e (update_chiller e s)) = ahu_mixed_air_temp s"
  "is_occupied (update_power e (update_chiller e s)) = is_occupied s"
  by (simp_all add: update_power_def update_chiller_def Let_def)

lemma update_keeps_inv:
  assumes ok: "zones_ok s" and rh: "list_all (\<lambda>r. 0 \<le> r \<and> r \<le> 100) (vav_reheat_valves s)"
  shows "\<exists>s'. update e s = Inr s' \<and> state_inv s'"
proof -
  let ?s0 = "update_outdoor_temp e (update_occupancy e s)"
  from update_unfold[OF ok, of e] obtain sa where
    sa: "update_ahu e ?s0 = Inr sa" and oka: "zones_ok sa"
    and upd: "update e s = Inr (update_power e (update_chiller e (vavs_after e sa 6)))"
    by blast
  have "vav_zone_temps ?s0 \<noteq> []"
    using ok by (auto simp: zones_ok_def update_outdoor_temp_def update_occupancy_def Let_def)
  from update_ahu_ok[OF this, of e] sa
  have cv: "0 \<le> ahu_cooling_valve sa" "ahu_cooling_valve sa \<le> 100"
    and rv: "vav_reheat_valves sa = vav_reheat_valves ?s0"
    by auto
  have rv0: "vav_reheat_valves sa = vav_reheat_valves s"
    unfolding rv by (simp add: update_outdoor_temp_def update_occupancy_def Let_def)
  have rhi: "\<And>i. i < 6 \<Longrightarrow> 0 \<le> vav_reheat_valves sa ! i \<and> vav_reheat_valves sa ! i \<le> 100"
    using rh ok unfolding rv0 by (simp add: list_all_length zones_ok_def)
  let ?s' = "update_power e (update_chiller e (vavs_after e sa 6))"
  have z: "zones_ok ?s'"
    using vavs_after_ok[OF oka, of e 6] by (simp add: zones_ok_def power_chiller_fields)
  have d: "list_all (\<lambda>d. 20 \<le> d \<and> d \<le> 100) (vav_damper_positions ?s')"
    by (simp add: power_chiller_fields vavs_after_def list_all_map_upt zone_damper_range)
  have r: "list_all (\<lambda>r. 0 \<le> r \<and> r \<le> 100) (vav_reheat_valves ?s')"
    using rhi by (simp add: power_chiller_fields vavs_after_def list_all_map_upt zone_reheat_next_range)
  have c: "0 \<le> ahu_cooling_valve ?s'" "ahu_cooling_valve ?s' \<le> 100"
    using cv by (simp_all add: power_chiller_fields vavs_after_fields)
  show ?thesis using upd z d r c by (simp add: state_inv_def valves_in_range_def)
qed

lemma init_inv: "state_inv BuildingState_init"
  by (simp add: state_inv_def zones_ok_def valves_in_range_def BuildingState_init_def list_all_iff)

lemma run_ticks_inv:
  "state_inv s \<Longrightarrow> \<exists>s'. run_ticks es s = Inr s' \<and> state_inv s'"
proof (induction es arbitrary: s)
  case Nil
  then show ?case by (simp add: run_ticks_def)
next
  case (Cons e es)
  from Cons.prems update_keeps_inv[of s e] obtain s1 where
    s1: "update e s = Inr s1" "state_inv s1"
    by (auto simp: state_inv_def valves_in_range_def)
  from Cons.IH[OF s1(2)] obtain s' where "run_ticks es s1 = Inr s'" "state_inv s'" by blast
  then show ?case using s1 by (simp add: run_ticks_def)
qed

text \<open>
  Claim C1. Start from the state of the default constructor and apply any number of
  \<^verbatim>\<open>update()\<close> ticks, whatever the clock and the random draws of each tick are.
  No tick raises, the five zone lists keep their six entries, every damper position is
  between 20 and 100, the cooling valve of the air handler is between 0 and 100, and
  every reheat valve is between 0 and 100.
\<close>

theorem valves_stay_in_range:
  "\<exists>s. run_ticks es BuildingState_init = Inr s \<and> zones_ok s \<and> valves_in_range s"
  using run_ticks_inv[OF init_inv, of es] by (simp add: state_inv_def)

lemma uniform_bounds:
  assumes "a \<le> b" "0 \<le> u" "u < 1"
  shows "a \<le> uniform a b u" "uniform a b u \<le> b"
proof -
  have "0 \<le> (b - a) * u" using assms by simp
  then show "a \<le> uniform a b u" by (simp add: uniform_def)
  have "(b - a) * u \<le> (b - a) * 1"
    using assms by (intro mult_left_mono) simp_all
  then show "uniform a b u \<le> b" by (simp add: uniform_def)
qed

lemma sum_list_nonneg_all:
  "list_all (\<lambda>r. (0::real) \<le> r \<and> r \<le> c) xs \<Longrightarrow> 0 \<le> sum_list xs"
  by (induction xs) auto

lemma update_energy:
  assumes inv: "state_inv s" and dr: "draws_ok e"
  shows "\<exists>s'. update e s = Inr s' \<and> total_energy s \<le> total_energy s'"
proof -
  let ?s0 = "update_outdoor_temp e (update_occupancy e s)"
  have ok: "zones_ok s" and rh: "list_all (\<lambda>r. 0 \<le> r \<and> r \<le> 100) (vav_reheat_valves s)"
    using inv by (simp_all add: state_inv_def valves_in_range_def)
  from update_unfold[OF ok, of e] obtain sa where
    sa: "update_ahu e ?s0 = Inr sa" and oka: "zones_ok sa"
    and upd: "update e s = Inr (update_power e (update_chiller e (vavs_after e sa 6)))"
    by blast
  from update_keeps_inv[OF ok rh, of e] upd
  have inv': "state_inv (update_power e (update_chiller e (vavs_after e sa 6)))" by simp
  let ?x = "update_chiller e (vavs_after e sa 6)"
  have ne: "vav_zone_temps ?s0 \<noteq> []"
    using ok by (auto simp: zones_ok_def update_outdoor_temp_def update_occupancy_def Let_def)
  from update_ahu_ok[OF ne, of e] sa
  have fan: "ahu_fan_speed sa = (if is_occupied ?s0 then 75 else 40) + uniform (-5) 5 (u_fan e)"
    and en: "total_energy sa = total_energy ?s0"
    by auto
  have en0: "total_energy ?s0 = total_energy s"
    by (simp add: update_outdoor_temp_def update_occupancy_def Let_def)
  have uf: "0 \<le> u_fan e" "u_fan e < 1" and um: "0 \<le> u_misc e" "u_misc e < 1"
    using dr by (simp_all add: draws_ok_def)
  have "0 \<le> ahu_fan_speed sa"
    unfolding fan using uniform_bounds(1)[of "-5" 5 "u_fan e"] uf by simp
  then have "0 \<le> ahu_fan_speed ?x" by (simp add: update_chiller_def Let_def vavs_after_fields)
  then have p1: "0 \<le> ahu_power ?x" by (simp add: ahu_power_def)
  have cvr: "ahu_cooling_valve ?x = ahu_cooling_valve (update_power e ?x)"
        "vav_reheat_valves ?x = vav_reheat_valves (update_power e ?x)"
    by (simp_all add: update_power_def Let_def)
  have p2: "0 \<le> chiller_power ?x"
    using inv' unfolding chiller_power_def cvr by (simp add: state_inv_def valves_in_range_def)
  have "0 \<le> sum_list (vav_reheat_valves ?x)"
    unfolding cvr using inv' by (intro sum_list_nonneg_all[of 100]) (simp add: state_inv_def valves_in_range_def)
  then have p3: "0 \<le> reheat_power ?x" by (simp add: reheat_power_def)
  have p4: "0 \<le> misc_power e ?x"
    using uniform_bounds(1)[of "-5" 5 "u_misc e"] uniform_bounds(1)[of "-2" 2 "u_misc e"] um
    by (simp add: misc_power_def)
  have "total_energy (update_power e ?x)
        = total_energy ?x + (ahu_power ?x + chiller_power ?x + reheat_power ?x + misc_power e ?x) * (INTERVAL / 3600)"
    by (simp add: update_power_def Let_def)
  moreover have "total_energy ?x = total_energy s"
    by (simp add: update_chiller_def Let_def vavs_after_fields en en0)
  moreover have "0 \<le> (ahu_power ?x + chiller_power ?x + reheat_power ?x + misc_power e ?x) * (INTERVAL / 3600)"
    using p1 p2 p3 p4 by (simp add: INTERVAL_def)
  ultimately have "total_energy s \<le> total_energy (update_power e ?x)" by simp
  with upd show ?thesis by simp
qed

text \<open>
  Claim C2. In every state reached from the default constructor by any number of ticks,
  one more \<^verbatim>\<open>update()\<close> whose random draws lie in the half open unit interval
  returns a state whose \<open>total_energy\<close> is greater than or equal to the previous value.
\<close>

theorem total_energy_monotone:
  assumes "draws_ok e"
  shows "\<exists>s s'. run_ticks es BuildingState_init = Inr s \<and> update e s = Inr s'
           \<and> total_energy s \<le> total_energy s'"
proof -
  from run_ticks_inv[OF init_inv, of es] obtain s where
    s: "run_ticks es BuildingState_init = Inr s" "state_inv s" by blast
  from update_energy[OF s(2) assms] s(1) show ?thesis by blast
qed

lemma update_reheat:
  assumes ok: "zones_ok s" and i: "i < 6"
  shows "\<exists>s'. update e s = Inr s' \<and> zones_ok s'
           \<and> vav_zone_setpoints s' = vav_zone_setpoints s
           \<and> vav_reheat_valves s' ! i =
               (if vav_zone_temps s' ! i < vav_zone_setpoints s' ! i - 1
                then min 100 (vav_reheat_valves s ! i + 5)
                else max 0 (vav_reheat_valves s ! i - 5))"
proof -
  let ?s0 = "update_outdoor_temp e (update_occupancy e s)"
  from update_unfold[OF ok, of e] obtain sa where
    sa: "update_ahu e ?s0 = Inr sa" and oka: "zones_ok sa"
    and upd: "update e s = Inr (update_power e (update_chiller e (vavs_after e sa 6)))"
    by blast
  have ne: "vav_zone_temps ?s0 \<noteq> []"
    using ok by (auto simp: zones_ok_def update_outdoor_temp_def update_occupancy_def Let_def)
  from update_ahu_ok[OF ne, of e] sa
  have "vav_reheat_valves sa = vav_reheat_valves ?s0" "vav_zone_setpoints sa = vav_zone_setpoints ?s0"
    by auto
  then have same: "vav_reheat_valves sa = vav_reheat_valves s" "vav_zone_setpoints sa = vav_zone_setpoints s"
    by (simp_all add: update_outdoor_temp_def update_occupancy_def Let_def)
  let ?s' = "update_power e (update_chiller e (vavs_after e sa 6))"
  have z: "zones_ok ?s'"
    using vavs_after_ok[OF oka, of e 6] by (simp add: zones_ok_def power_chiller_fields)
  have sp: "vav_zone_setpoints ?s' = vav_zone_setpoints s"
    by (simp add: power_chiller_fields vavs_after_fields same)
  have t: "vav_zone_temps ?s' ! i = zone_temp_next e sa i"
    using i by (simp add: power_chiller_fields vavs_after_def)
  have r: "vav_reheat_valves ?s' ! i = zone_reheat_next e sa i"
    using i by (simp add: power_chiller_fields vavs_after_def)
  have "vav_reheat_valves ?s' ! i =
               (if vav_zone_temps ?s' ! i < vav_zone_setpoints ?s' ! i - 1
                then min 100 (vav_reheat_valves s ! i + 5)
                else max 0 (vav_reheat_valves s ! i - 5))"
    unfolding r t sp by (simp add: zone_reheat_next_def same)
  with upd z sp show ?thesis by simp
qed

lemma warm_run_reheat:
  assumes i: "i < 6"
  shows "zones_ok s \<Longrightarrow> 0 \<le> vav_reheat_valves s ! i \<Longrightarrow> zone_stays_warm i es s \<Longrightarrow>
     \<exists>s'. run_ticks es s = Inr s'
        \<and> vav_reheat_valves s' ! i = max 0 (vav_reheat_valves s ! i - 5 * real (length es))"
proof (induction es arbitrary: s)
  case Nil
  then show ?case by (simp add: run_ticks_def)
next
  case (Cons e es)
  from update_reheat[OF Cons.prems(1) i, of e] obtain s1 where
    s1: "update e s = Inr s1" and ok1: "zones_ok s1"
    and r1: "vav_reheat_valves s1 ! i =
               (if vav_zone_temps s1 ! i < vav_zone_setpoints s1 ! i - 1
                then min 100 (vav_reheat_valves s ! i + 5)
                else max 0 (vav_reheat_valves s ! i - 5))"
    by blast
  from Cons.prems(3) s1 have warm: "\<not> (vav_zone_temps s1 ! i < vav_zone_setpoints s1 ! i - 1)"
    and rest: "zone_stays_warm i es s1" by simp_all
  from r1 warm have r1': "vav_reheat_valves s1 ! i = max 0 (vav_reheat_valves s ! i - 5)" by simp
  then have nn: "0 \<le> vav_reheat_valves s1 ! i" by simp
  from Cons.IH[OF ok1 nn rest] obtain s' where
    s': "run_ticks es s1 = Inr s'"
    "vav_reheat_valves s' ! i = max 0 (vav_reheat_valves s1 ! i - 5 * real (length es))"
    by blast
  have "run_ticks (e # es) s = Inr s'" using s1 s'(1) by (simp add: run_ticks_def)
  moreover have "vav_reheat_valves s' ! i = max 0 (vav_reheat_valves s ! i - 5 * real (length (e # es)))"
    unfolding s'(2) r1' by (simp add: max_def algebra_simps)
  ultimately show ?case by blast
qed

text \<open>
  Claim C7. For every zone \<open>i\<close> and every tick: when the zone temperature after the
  integration step of that tick is more than one degree below the setpoint, the reheat
  valve becomes \<open>min 100 (r + 5)\<close>, otherwise \<open>max 0 (r - 5)\<close>, where \<open>r\<close> is its
  value before the tick. Hence along any run of ticks in which the zone stays at or
  above setpoint minus one after each tick, the valve is \<open>max 0 (r - 5 n)\<close> after
  \<open>n\<close> ticks: it reaches 0 after at most twenty ticks and stays there. This holds for
  every occupancy and noise, in particular with occupancy false and no noise.
\<close>

theorem reheat_valve_ramp:
  assumes "zones_ok s" "i < 6"
  shows "(\<exists>s'. update e s = Inr s'
            \<and> vav_reheat_valves s' ! i =
               (if vav_zone_temps s' ! i < vav_zone_setpoints s' ! i - 1
                then min 100 (vav_reheat_valves s ! i + 5)
                else max 0 (vav_reheat_valves s ! i - 5)))
       \<and> (0 \<le> vav_reheat_valves s ! i \<and> zone_stays_warm i es s \<longrightarrow>
            (\<exists>s'. run_ticks es s = Inr s'
               \<and> vav_reheat_valves s' ! i = max 0 (vav_reheat_valves s ! i - 5 * real (length es))
               \<and> (vav_reheat_valves s ! i \<le> 100 \<and> 20 \<le> length es \<longrightarrow> vav_reheat_valves s' ! i = 0)))"
proof (intro conjI impI)
  show "\<exists>s'. update e s = Inr s'
            \<and> vav_reheat_valves s' ! i =
               (if vav_zone_temps s' ! i < vav_zone_setpoints s' ! i - 1
                then min 100 (vav_reheat_valves s ! i + 5)
                else max 0 (vav_reheat_valves s ! i - 5))"
    using update_reheat[OF assms, of e] by blast
next
  assume a: "0 \<le> vav_reheat_valves s ! i \<and> zone_stays_warm i es s"
  from warm_run_reheat[OF assms(2) assms(1), of es] a obtain s' where
    s': "run_ticks es s = Inr s'"
    "vav_reheat_valves s' ! i = max 0 (vav_reheat_valves s ! i - 5 * real (length es))"
    by blast
  have "vav_reheat_valves s ! i \<le> 100 \<and> 20 \<le> length es \<longrightarrow> vav_reheat_valves s' ! i = 0"
    unfolding s'(2) by (auto simp: max_def)
  with s' show "\<exists>s'. run_ticks es s = Inr s'
               \<and> vav_reheat_valves s' ! i = max 0 (vav_reheat_valves s ! i - 5 * real (length es))
               \<and> (vav_reheat_valves s ! i \<le> 100 \<and> 20 \<le> length es \<longrightarrow> vav_reheat_valves s' ! i = 0)"
    by blast
qed

lemma update_explicit:
  assumes "zones_ok s"
  shows "update e s = Inr (update_power e (update_chiller e
           (vavs_after e (the_state (update_ahu e (update_outdoor_temp e (update_occupancy e s)))) 6)))"
  using update_unfold[OF assms, of e] by (auto simp: the_state_def)

lemma cool_ok: "zones_ok cool_start"
  by (simp add: zones_ok_def cool_start_def BuildingState_init_def)

lemma init_ok: "zones_ok BuildingState_init"
  by (simp add: zones_ok_def BuildingState_init_def)

lemmas concrete_defs = zone_temp_next_def zone_damper_def zone_load_def update_ahu_def Let_def
     update_outdoor_temp_def update_occupancy_def is_business_hours_def quiet_tick_def
     cool_start_def BuildingState_init_def uniform_def INTERVAL_def

lemma saturday_temp:
  "vav_zone_temps (the_state (update (quiet_tick 5 6) cool_start)) ! 2 = 345479 / 4800"
  unfolding update_explicit[OF cool_ok]
  by (simp add: the_state_def power_chiller_fields vavs_after_def concrete_defs)

lemma saturday_setpoint:
  "vav_zone_setpoints (the_state (update (quiet_tick 5 6) cool_start)) ! 2 = 72"
  unfolding update_explicit[OF cool_ok]
  by (simp add: the_state_def power_chiller_fields vavs_after_def concrete_defs)

lemma saturday_warm: "zone_stays_warm 2 [quiet_tick 5 6] cool_start"
proof -
  obtain s' where s': "update (quiet_tick 5 6) cool_start = Inr s'"
    using update_explicit[OF cool_ok] by blast
  then have "the_state (update (quiet_tick 5 6) cool_start) = s'" by (simp add: the_state_def)
  with saturday_temp saturday_setpoint
  have "vav_zone_temps s' ! 2 = 345479 / 4800" "vav_zone_setpoints s' ! 2 = 72" by simp_all
  with s' show ?thesis by simp
qed

theorem reheat_valve_ramp_witness:
  "zones_ok cool_start \<and> (2::nat) < 6
   \<and> (\<exists>s'. update (quiet_tick 5 6) cool_start = Inr s' \<and> vav_reheat_valves s' ! 2 = 7)
   \<and> 0 \<le> vav_reheat_valves cool_start ! 2
   \<and> zone_stays_warm 2 [quiet_tick 5 6] cool_start
   \<and> (\<exists>s'. run_ticks [quiet_tick 5 6] cool_start = Inr s' \<and> vav_reheat_valves s' ! 2 = 7)"
proof -
  have r0: "vav_reheat_valves cool_start ! 2 = 12"
    by (simp add: cool_start_def)
  have two: "(2::nat) < 6" by simp
  from reheat_valve_ramp[OF cool_ok two, of "quiet_tick 5 6" "[quiet_tick 5 6]"] saturday_warm r0
  obtain s' where "run_ticks [quiet_tick 5 6] cool_start = Inr s'" "vav_reheat_valves s' ! 2 = 7"
    by auto
  moreover from this have "update (quiet_tick 5 6) cool_start = Inr s'"
    by (simp add: run_ticks_def split: sum.splits)
  ultimately show ?thesis using cool_ok saturday_warm r0 by auto
qed

text \<open>
  Claim C8. After every tick the total power is the sum of the fan power
  \<open>(fan_speed / 100) ^ 3 * 15\<close>, the chiller power, the reheat power and the
  miscellaneous load, all taken at the values of that tick; the fan power term of
  \<^verbatim>\<open>update_power\<close> is \<open>(fan_speed / 100) ^ 3 * 15\<close>, and it is exactly 15 at a fan
  speed of exactly 100.
\<close>

theorem fan_power_cubic:
  assumes "zones_ok s"
  shows "(\<exists>s'. update e s = Inr s'
            \<and> total_power s' = (ahu_fan_speed s' / 100) ^ 3 * 15
                 + (ahu_cooling_valve s' / 100) * 80
                 + sum_list (vav_reheat_valves s') / 100 * 2
                 + misc_power e s')
       \<and> ahu_power x = (ahu_fan_speed x / 100) ^ 3 * 15
       \<and> ahu_power (x\<lparr>ahu_fan_speed := 100\<rparr>) = 15"
proof -
  let ?y = "update_chiller e
           (vavs_after e (the_state (update_ahu e (update_outdoor_temp e (update_occupancy e s)))) 6)"
  have "total_power (update_power e ?y) = (ahu_fan_speed (update_power e ?y) / 100) ^ 3 * 15
                 + (ahu_cooling_valve (update_power e ?y) / 100) * 80
                 + sum_list (vav_reheat_valves (update_power e ?y)) / 100 * 2
                 + misc_power e (update_power e ?y)"
    by (simp add: update_power_def Let_def ahu_power_def chiller_power_def reheat_power_def
        misc_power_def)
  then show ?thesis
    using update_explicit[OF assms, of e] by (simp add: ahu_power_def)
qed

theorem fan_power_cubic_witness:
  "zones_ok BuildingState_init
   \<and> (\<exists>s'. update (quiet_tick 0 12) BuildingState_init = Inr s'
            \<and> total_power s' = (ahu_fan_speed s' / 100) ^ 3 * 15
                 + (ahu_cooling_valve s' / 100) * 80
                 + sum_list (vav_reheat_valves s') / 100 * 2
                 + misc_power (quiet_tick 0 12) s')
   \<and> ahu_power (BuildingState_init\<lparr>ahu_fan_speed := 100\<rparr>) = 15"
  using fan_power_cubic[OF init_ok, of "quiet_tick 0 12" BuildingState_init] init_ok by simp

lemma quiet_draws_ok: "draws_ok (quiet_tick wd h)"
  by (simp add: draws_ok_def quiet_tick_def list_all_iff)

theorem total_energy_monotone_witness:
  "draws_ok (quiet_tick 0 12)
   \<and> (\<exists>s s'. run_ticks [quiet_tick 0 12, quiet_tick 0 12] BuildingState_init = Inr s
         \<and> update (quiet_tick 0 12) s = Inr s' \<and> total_energy s \<le> total_energy s')"
  using total_energy_monotone[OF quiet_draws_ok, where es = "[quiet_tick 0 12, quiet_tick 0 12]"]
    quiet_draws_ok[of 0 12]
  by simp

lemma update_mixed_air:
  assumes "zones_ok s"
  shows "\<exists>s'. update e s = Inr s'
     \<and> ahu_mixed_air_temp s' =
         ahu_return_air_temp s * (100 - (if is_occupied (update_occupancy e s) then 20 else 10)) / 100
         + (75 + 15 * sin ((real (ot_hour e) - 6) * pi / 12) + uniform (-2) 2 (u_outdoor e))
           * (if is_occupied (update_occupancy e s) then 20 else 10) / 100"
proof -
  let ?s0 = "update_outdoor_temp e (update_occupancy e s)"
  from update_unfold[OF assms, of e] obtain sa where
    sa: "update_ahu e ?s0 = Inr sa"
    and upd: "update e s = Inr (update_power e (update_chiller e (vavs_after e sa 6)))"
    by blast
  have ne: "vav_zone_temps ?s0 \<noteq> []"
    using assms by (auto simp: zones_ok_def update_outdoor_temp_def update_occupancy_def Let_def)
  from update_ahu_ok[OF ne, of e] sa
  have "ahu_mixed_air_temp sa =
        ahu_return_air_temp ?s0 * (100 - (if is_occupied ?s0 then 20 else 10)) / 100
        + outdoor_temp ?s0 * (if is_occupied ?s0 then 20 else 10) / 100"
    by auto
  moreover have "ahu_return_air_temp ?s0 = ahu_return_air_temp s"
      "is_occupied ?s0 = is_occupied (update_occupancy e s)"
      "outdoor_temp ?s0 = 75 + 15 * sin ((real (ot_hour e) - 6) * pi / 12) + uniform (-2) 2 (u_outdoor e)"
    by (simp_all add: update_outdoor_temp_def update_occupancy_def Let_def)
  ultimately have "ahu_mixed_air_temp (update_power e (update_chiller e (vavs_after e sa 6))) =
         ahu_return_air_temp s * (100 - (if is_occupied (update_occupancy e s) then 20 else 10)) / 100
         + (75 + 15 * sin ((real (ot_hour e) - 6) * pi / 12) + uniform (-2) 2 (u_outdoor e))
           * (if is_occupied (update_occupancy e s) then 20 else 10) / 100"
    by (simp add: power_chiller_fields vavs_after_fields)
  with upd show ?thesis by simp
qed

text \<open>
  Claim C4, as amended. With the outdoor noise disabled and occupancy true, one
  \<^verbatim>\<open>update()\<close> tick from the default state gives the mixed air temperature
  \<open>72 * 0.8 + T * 0.2\<close>, where \<open>T = 75 + 15 * sin ((hour - 6) * pi / 12)\<close> is the
  outdoor temperature that the tick itself computes from the clock before the air
  handler step runs: the default of 85 is overwritten and never used. The value 74.6 is
  what the air handler step \<^verbatim>\<open>update_ahu\<close> alone gives on the default state.
\<close>

theorem first_tick_mixed_air:
  assumes "is_occupied (update_occupancy e BuildingState_init)" and "u_outdoor e = 1/2"
  shows "(\<exists>s'. update e BuildingState_init = Inr s'
            \<and> ahu_mixed_air_temp s' =
                72 * 0.8 + (75 + 15 * sin ((real (ot_hour e) - 6) * pi / 12)) * 0.2)
       \<and> (\<exists>s'. update_ahu e BuildingState_init = Inr s' \<and> ahu_mixed_air_temp s' = 74.6)"
proof
  have r: "ahu_return_air_temp BuildingState_init = 72"
    by (simp add: BuildingState_init_def)
  have n: "uniform (-2) 2 (u_outdoor e) = 0"
    using assms(2) by (simp add: uniform_def)
  from update_mixed_air[OF init_ok, of e]
  obtain s' where u: "update e BuildingState_init = Inr s'"
    and m: "ahu_mixed_air_temp s' =
              72 * (100 - 20) / 100
              + (75 + 15 * sin ((real (ot_hour e) - 6) * pi / 12) + 0) * 20 / 100"
    unfolding r n using assms(1) by auto
  have "ahu_mixed_air_temp s' = 72 * 0.8 + (75 + 15 * sin ((real (ot_hour e) - 6) * pi / 12)) * 0.2"
    unfolding m by (simp add: field_simps)
  with u show "\<exists>s'. update e BuildingState_init = Inr s'
            \<and> ahu_mixed_air_temp s' =
                72 * 0.8 + (75 + 15 * sin ((real (ot_hour e) - 6) * pi / 12)) * 0.2"
    by blast
  show "\<exists>s'. update_ahu e BuildingState_init = Inr s' \<and> ahu_mixed_air_temp s' = 74.6"
    by (simp add: update_ahu_def Let_def BuildingState_init_def)
qed

lemma noon_occupied: "is_occupied (update_occupancy (quiet_tick 0 12) BuildingState_init)"
  by (simp add: update_occupancy_def is_business_hours_def quiet_tick_def)

lemma noon_noise: "u_outdoor (quiet_tick 0 12) = 1/2"
  by (simp add: quiet_tick_def)

lemma noon_hour: "ot_hour (quiet_tick 0 12) = 12"
  by (simp add: quiet_tick_def)

theorem first_tick_mixed_air_witness:
  "is_occupied (update_occupancy (quiet_tick 0 12) BuildingState_init)
   \<and> u_outdoor (quiet_tick 0 12) = 1/2
   \<and> (\<exists>s'. update (quiet_tick 0 12) BuildingState_init = Inr s' \<and> ahu_mixed_air_temp s' = 75.6)
   \<and> (\<exists>s'. update_ahu (quiet_tick 0 12) BuildingState_init = Inr s' \<and> ahu_mixed_air_temp s' = 74.6)"
  using first_tick_mixed_air[OF noon_occupied noon_noise] noon_occupied noon_noise
  by (simp add: noon_hour)

theorem first_tick_mixed_air_counterexample:
  "is_occupied (update_occupancy (quiet_tick 0 12) BuildingState_init)
   \<and> uniform (-2) 2 (u_outdoor (quiet_tick 0 12)) = 0
   \<and> map_sum fst ahu_mixed_air_temp (update (quiet_tick 0 12) BuildingState_init) = Inr 75.6
   \<and> map_sum fst ahu_mixed_air_temp (update (quiet_tick 0 12) BuildingState_init) \<noteq> Inr 74.6"
proof -
  from update_mixed_air[OF init_ok, of "quiet_tick 0 12"] noon_occupied
  have r: "ahu_return_air_temp BuildingState_init = 72"
    by (simp add: BuildingState_init_def)
  have n: "uniform (-2) 2 (u_outdoor (quiet_tick 0 12)) = 0"
    by (simp add: uniform_def noon_noise)
  from update_mixed_air[OF init_ok, of "quiet_tick 0 12"]
  obtain s' where "update (quiet_tick 0 12) BuildingState_init = Inr s'" "ahu_mixed_air_temp s' = 75.6"
    unfolding r n noon_hour using noon_occupied by auto
  then show ?thesis using noon_occupied n by simp
qed

lemma put_point_ok:
  "k < length objs \<Longrightarrow> f s = Some v \<Longrightarrow>
   put_point k f (s, objs) = Inr (s, objs[k := assign_present_value v (objs ! k)])"
  by (simp add: put_point_def)

lemma take_point_ok:
  "k < length objs \<Longrightarrow> presentValue (objs ! k) = PVReal v \<Longrightarrow> g v s = Some s' \<Longrightarrow>
   take_point k g (s, objs) = Inr (s', objs)"
  by (simp add: take_point_def)

lemma py_index_nonneg: "0 \<le> zi \<Longrightarrow> zi < int (length xs) \<Longrightarrow> py_index xs zi = Some (nat zi)"
  by (simp add: py_index_def Let_def)

lemma py_get_nonneg: "0 \<le> zi \<Longrightarrow> zi < int (length xs) \<Longrightarrow> py_get xs zi = Some (xs ! nat zi)"
  by (simp add: py_get_def py_index_nonneg)

lemma AHU_update_objects_ok:
  assumes len: "7 \<le> length objs" and sp: "presentValue (objs ! 4) = PVReal v"
  shows "update_objects e AHUProfile (s, objs) =
     Inr (s\<lparr>ahu_supply_air_setpoint := v\<rparr>,
          objs[0 := assign_present_value (PVReal (ahu_supply_air_temp s)) (objs ! 0),
               1 := assign_present_value (PVReal (ahu_return_air_temp s)) (objs ! 1),
               2 := assign_present_value (PVReal (ahu_mixed_air_temp s)) (objs ! 2),
               3 := assign_present_value (PVReal (ahu_supply_air_flow s)) (objs ! 3),
               5 := assign_present_value (PVReal (ahu_fan_speed s)) (objs ! 5),
               6 := assign_present_value (PVReal (ahu_cooling_valve s)) (objs ! 6)])"
  using assms by (auto simp: put_point_def take_point_def real_field_def)

lemma VAV_update_objects_ok:
  assumes len: "6 \<le> length objs" and sp: "presentValue (objs ! 1) = PVReal v"
    and ok: "zones_ok s" and zi: "0 \<le> zi" "zi < 6"
  shows "update_objects e (VAVProfile zi fl nm) (s, objs) =
     Inr (s\<lparr>vav_zone_setpoints := (vav_zone_setpoints s)[nat zi := v]\<rparr>,
          objs[0 := assign_present_value (PVReal (vav_zone_temps s ! nat zi)) (objs ! 0),
               2 := assign_present_value (PVReal (vav_damper_positions s ! nat zi)) (objs ! 2),
               3 := assign_present_value (PVReal (vav_airflows s ! nat zi)) (objs ! 3),
               4 := assign_present_value (PVReal (vav_reheat_valves s ! nat zi)) (objs ! 4),
               5 := assign_present_value (PVText (occupancy_text s)) (objs ! 5)])"
  using assms
  by (auto simp: put_point_def take_point_def zone_field_def set_zone_setpoint_def
      py_get_nonneg py_index_nonneg zones_ok_def occupancy_text_def)


lemma ahu_points_length: "length ahu_points = 9"
  by (simp add: ahu_points_def AHU_create_objects_def)

lemma ahu_points_setpoint: "presentValue (ahu_points ! 4) = PVReal 55"
  by (simp add: ahu_points_def AHU_create_objects_def local_object_def BuildingState_init_def)

lemma vav3_points_created:
  "VAV_create_objects 3 BuildingState_init = Inr vav3_points \<and> length vav3_points = 6"
  by (simp add: vav3_points_def VAV_create_objects_def zone_object_def new_object_def
      py_get_def py_index_def Let_def BuildingState_init_def)


lemma run_steps_frame:
  assumes refl: "\<And>s. R s s" and trans: "\<And>a b c. R a b \<Longrightarrow> R b c \<Longrightarrow> R a c"
    and steps: "\<And>f x. f \<in> set fs \<Longrightarrow> R (fst x) (fst (the_state (f x)))"
  shows "R (fst x) (fst (the_state (run_steps fs x)))"
  using steps
proof (induction fs arbitrary: x)
  case Nil
  show ?case by (simp add: the_state_def refl)
next
  case (Cons f fs)
  have f: "R (fst x) (fst (the_state (f x)))" using Cons.prems by simp
  show ?case
  proof (cases "f x")
    case (Inl a)
    then show ?thesis using f by (simp add: the_state_def)
  next
    case (Inr y)
    have "R (fst y) (fst (the_state (run_steps fs y)))"
      using Cons.IH Cons.prems by simp
    moreover have "R (fst x) (fst y)" using f Inr by (simp add: the_state_def)
    ultimately show ?thesis using Inr trans by simp
  qed
qed

lemma put_point_state: "fst (the_state (put_point k f x)) = fst x"
  by (cases x) (simp add: put_point_def the_state_def split: option.splits)

lemma take_point_state:
  "fst (the_state (take_point k g x)) = fst x
   \<or> (\<exists>v s'. g v (fst x) = Some s' \<and> fst (the_state (take_point k g x)) = s')"
  by (cases x) (auto simp: take_point_def the_state_def split: option.splits present_value.splits)

lemma ahu_frame_iff: "ahu_frame s s' = (\<exists>v. s' = s\<lparr>ahu_supply_air_setpoint := v\<rparr>)"
proof
  assume "ahu_frame s s'"
  then show "\<exists>v. s' = s\<lparr>ahu_supply_air_setpoint := v\<rparr>"
    unfolding ahu_frame_def by blast
next
  assume "\<exists>v. s' = s\<lparr>ahu_supply_air_setpoint := v\<rparr>"
  then obtain v where v: "s' = s\<lparr>ahu_supply_air_setpoint := v\<rparr>" by blast
  then have "ahu_supply_air_setpoint s' = v" by simp
  with v show "ahu_frame s s'" unfolding ahu_frame_def by simp
qed

lemma vav_frame_iff:
  "vav_frame zi s s' =
     (\<exists>sp. s' = s\<lparr>vav_zone_setpoints := sp\<rparr> \<and> length sp = length (vav_zone_setpoints s)
        \<and> (\<forall>j < length sp. py_index (vav_zone_setpoints s) zi \<noteq> Some j
              \<longrightarrow> sp ! j = vav_zone_setpoints s ! j))"
proof
  assume "vav_frame zi s s'"
  then show "\<exists>sp. s' = s\<lparr>vav_zone_setpoints := sp\<rparr> \<and> length sp = length (vav_zone_setpoints s)
        \<and> (\<forall>j < length sp. py_index (vav_zone_setpoints s) zi \<noteq> Some j
              \<longrightarrow> sp ! j = vav_zone_setpoints s ! j)"
    unfolding vav_frame_def by blast
next
  assume "\<exists>sp. s' = s\<lparr>vav_zone_setpoints := sp\<rparr> \<and> length sp = length (vav_zone_setpoints s)
        \<and> (\<forall>j < length sp. py_index (vav_zone_setpoints s) zi \<noteq> Some j
              \<longrightarrow> sp ! j = vav_zone_setpoints s ! j)"
  then obtain sp where sp: "s' = s\<lparr>vav_zone_setpoints := sp\<rparr>"
    and l: "length sp = length (vav_zone_setpoints s)"
    and k: "\<forall>j < length sp. py_index (vav_zone_setpoints s) zi \<noteq> Some j
              \<longrightarrow> sp ! j = vav_zone_setpoints s ! j"
    by blast
  have e: "vav_zone_setpoints s' = sp" using sp by simp
  show "vav_frame zi s s'"
    unfolding vav_frame_def e using sp l k by simp
qed

lemma ahu_frame_refl: "ahu_frame s s"
  unfolding ahu_frame_iff by (rule exI[of _ "ahu_supply_air_setpoint s"]) simp

lemma ahu_frame_trans: "ahu_frame a b \<Longrightarrow> ahu_frame b c \<Longrightarrow> ahu_frame a c"
  unfolding ahu_frame_iff by auto

lemma vav_frame_refl: "vav_frame zi s s"
  unfolding vav_frame_iff by (rule exI[of _ "vav_zone_setpoints s"]) simp

lemma py_index_length: "length ys = length xs \<Longrightarrow> py_index ys zi = py_index xs zi"
  by (simp add: py_index_def)

lemma vav_frame_trans:
  assumes "vav_frame zi a b" "vav_frame zi b c"
  shows "vav_frame zi a c"
proof -
  from assms(1) obtain sp where b: "b = a\<lparr>vav_zone_setpoints := sp\<rparr>"
    and lb: "length sp = length (vav_zone_setpoints a)"
    and kb: "\<forall>j < length sp. py_index (vav_zone_setpoints a) zi \<noteq> Some j
              \<longrightarrow> sp ! j = vav_zone_setpoints a ! j"
    unfolding vav_frame_iff by blast
  from assms(2) obtain sq where c: "c = b\<lparr>vav_zone_setpoints := sq\<rparr>"
    and lc: "length sq = length (vav_zone_setpoints b)"
    and kc: "\<forall>j < length sq. py_index (vav_zone_setpoints b) zi \<noteq> Some j
              \<longrightarrow> sq ! j = vav_zone_setpoints b ! j"
    unfolding vav_frame_iff by blast
  have spb: "vav_zone_setpoints b = sp" using b by simp
  have c': "c = a\<lparr>vav_zone_setpoints := sq\<rparr>" using b c by simp
  have l: "length sq = length (vav_zone_setpoints a)" using lc lb spb by simp
  have ix: "py_index sp zi = py_index (vav_zone_setpoints a) zi"
    using lb by (rule py_index_length)
  have "\<forall>j < length sq. py_index (vav_zone_setpoints a) zi \<noteq> Some j
              \<longrightarrow> sq ! j = vav_zone_setpoints a ! j"
    using kb kc lb lc unfolding spb ix by simp
  with c' l show ?thesis unfolding vav_frame_iff by blast
qed

lemma set_zone_setpoint_frame:
  assumes "set_zone_setpoint zi v s = Some s'"
  shows "vav_frame zi s s'"
proof -
  from assms obtain j where j: "py_index (vav_zone_setpoints s) zi = Some j"
    and s': "s' = s\<lparr>vav_zone_setpoints := (vav_zone_setpoints s)[j := v]\<rparr>"
    unfolding set_zone_setpoint_def by auto
  have "\<forall>i < length ((vav_zone_setpoints s)[j := v]).
          py_index (vav_zone_setpoints s) zi \<noteq> Some i
          \<longrightarrow> (vav_zone_setpoints s)[j := v] ! i = vav_zone_setpoints s ! i"
    using j by (simp add: nth_list_update)
  with s' show ?thesis unfolding vav_frame_iff
    by (intro exI[of _ "(vav_zone_setpoints s)[j := v]"]) simp
qed

lemma take_point_ahu:
  "ahu_frame (fst x)
     (fst (the_state (take_point k (\<lambda>v s. Some (s\<lparr>ahu_supply_air_setpoint := v\<rparr>)) x)))"
  using take_point_state[of k "\<lambda>v s. Some (s\<lparr>ahu_supply_air_setpoint := v\<rparr>)" x]
proof
  assume "fst (the_state (take_point k (\<lambda>v s. Some (s\<lparr>ahu_supply_air_setpoint := v\<rparr>)) x)) = fst x"
  then show ?thesis by (simp add: ahu_frame_refl)
next
  assume "\<exists>v s'. Some (fst x\<lparr>ahu_supply_air_setpoint := v\<rparr>) = Some s'
     \<and> fst (the_state (take_point k (\<lambda>v s. Some (s\<lparr>ahu_supply_air_setpoint := v\<rparr>)) x)) = s'"
  then obtain v where
    "fst (the_state (take_point k (\<lambda>v s. Some (s\<lparr>ahu_supply_air_setpoint := v\<rparr>)) x))
       = fst x\<lparr>ahu_supply_air_setpoint := v\<rparr>"
    by auto
  then show ?thesis unfolding ahu_frame_iff by blast
qed

lemma take_point_vav:
  "vav_frame zi (fst x) (fst (the_state (take_point k (set_zone_setpoint zi) x)))"
  using take_point_state[of k "set_zone_setpoint zi" x]
  by (auto simp: vav_frame_refl set_zone_setpoint_frame)

lemma AHU_sync_frame:
  "ahu_frame (fst x) (fst (the_state (update_objects e AHUProfile x)))"
  unfolding update_objects.simps
proof (rule run_steps_frame[where R = ahu_frame])
  fix f y
  assume "f \<in> set [put_point 0 (real_field ahu_supply_air_temp),
        put_point 1 (real_field ahu_return_air_temp),
        put_point 2 (real_field ahu_mixed_air_temp),
        put_point 3 (real_field ahu_supply_air_flow),
        take_point 4 (\<lambda>v s. Some (s\<lparr>ahu_supply_air_setpoint := v\<rparr>)),
        put_point 5 (real_field ahu_fan_speed),
        put_point 6 (real_field ahu_cooling_valve)]"
  then show "ahu_frame (fst y) (fst (the_state (f y)))"
    by (auto simp: put_point_state ahu_frame_refl take_point_ahu)
qed (rule ahu_frame_refl, rule ahu_frame_trans)

lemma VAV_sync_frame:
  "vav_frame zi (fst x) (fst (the_state (update_objects e (VAVProfile zi fl nm) x)))"
  unfolding update_objects.simps
proof (rule run_steps_frame[where R = "vav_frame zi"])
  fix f y
  assume "f \<in> set [put_point 0 (zone_field vav_zone_temps zi),
        take_point 1 (set_zone_setpoint zi),
        put_point 2 (zone_field vav_damper_positions zi),
        put_point 3 (zone_field vav_airflows zi),
        put_point 4 (zone_field vav_reheat_valves zi),
        put_point 5 (\<lambda>s. Some (PVText (occupancy_text s)))]"
  then show "vav_frame zi (fst y) (fst (the_state (f y)))"
    by (auto simp: put_point_state vav_frame_refl take_point_vav)
qed (rule vav_frame_refl, rule vav_frame_trans)

lemma sensor_sync_frame:
  assumes "\<And>f. f \<in> set fs \<Longrightarrow> \<exists>k g. f = put_point k g"
  shows "fst (the_state (run_steps fs x)) = fst x"
proof -
  have "(\<lambda>a b. b = a) (fst x) (fst (the_state (run_steps fs x)))"
  proof (rule run_steps_frame[where R = "\<lambda>a b. b = a"])
    fix f y
    assume "f \<in> set fs"
    then obtain k g where "f = put_point k g" using assms by blast
    then show "fst (the_state (f y)) = fst y" by (simp add: put_point_state)
  qed simp_all
  then show ?thesis .
qed

text \<open>
  Claim C10. For each of the four profiles, \<^verbatim>\<open>update_objects\<close> leaves every field of
  the state as it was, except the supply air setpoint for the air handler and the one
  entry of the zone setpoints at the profile's zone index for a VAV; the chiller and the
  meter change nothing. This holds for every list of objects, so no present value of any
  other point reaches the state, and it holds for the state left by a call that raises
  as well.
\<close>

theorem sync_frame:
  "ahu_frame s (fst (the_state (update_objects e AHUProfile (s, objs))))
   \<and> vav_frame zi s (fst (the_state (update_objects e (VAVProfile zi fl nm) (s, objs))))
   \<and> fst (the_state (update_objects e ChillerProfile (s, objs))) = s
   \<and> fst (the_state (update_objects e MeterProfile (s, objs))) = s"
proof (intro conjI)
  show "ahu_frame s (fst (the_state (update_objects e AHUProfile (s, objs))))"
    using AHU_sync_frame[of "(s, objs)" e] by simp
  show "vav_frame zi s (fst (the_state (update_objects e (VAVProfile zi fl nm) (s, objs))))"
    using VAV_sync_frame[of zi "(s, objs)" e fl nm] by simp
  show "fst (the_state (update_objects e ChillerProfile (s, objs))) = s"
    unfolding update_objects.simps by (subst sensor_sync_frame) auto
  show "fst (the_state (update_objects e MeterProfile (s, objs))) = s"
    unfolding update_objects.simps by (subst sensor_sync_frame) auto
qed

theorem sync_frame_witness:
  "ahu_frame BuildingState_init
     (fst (the_state (update_objects (quiet_tick 0 12) AHUProfile
        (BuildingState_init, write_point 4 58 ahu_points))))
   \<and> fst (the_state (update_objects (quiet_tick 0 12) AHUProfile
        (BuildingState_init, write_point 4 58 ahu_points)))
       = BuildingState_init\<lparr>ahu_supply_air_setpoint := 58\<rparr>
   \<and> vav_frame 3 BuildingState_init
     (fst (the_state (update_objects (quiet_tick 0 12) (VAVProfile 3 2 ''South'')
        (BuildingState_init, write_point 1 58 vav3_points))))
   \<and> fst (the_state (update_objects (quiet_tick 0 12) (VAVProfile 3 2 ''South'')
        (BuildingState_init, write_point 1 58 vav3_points)))
       = BuildingState_init\<lparr>vav_zone_setpoints := [72, 72, 72, 58, 72, 72]\<rparr>
   \<and> fst (the_state (update_objects (quiet_tick 0 12) ChillerProfile
        (BuildingState_init, chiller_points_disabled)))
       = BuildingState_init
   \<and> fst (the_state (update_objects (quiet_tick 0 12) MeterProfile
        (BuildingState_init, write_point 2 500 (Meter_create_objects BuildingState_init))))
       = BuildingState_init"
proof -
  have a: "7 \<le> length (write_point 4 58 ahu_points)"
    "presentValue (write_point 4 58 ahu_points ! 4) = PVReal 58"
    by (simp_all add: write_point_def ahu_points_length)
  have v: "6 \<le> length (write_point 1 58 vav3_points)"
    "presentValue (write_point 1 58 vav3_points ! 1) = PVReal 58"
    using vav3_points_created by (simp_all add: write_point_def)
  have z: "(0::int) \<le> 3" "(3::int) < 6" by simp_all
  have l: "(vav_zone_setpoints BuildingState_init)[nat 3 := 58] = [72, 72, 72, 58, 72, 72]"
    by (simp add: BuildingState_init_def numeral_eq_Suc)
  show ?thesis
    using sync_frame[where s = BuildingState_init and e = "quiet_tick 0 12"
        and objs = "write_point 4 58 ahu_points"]
      sync_frame[where s = BuildingState_init and e = "quiet_tick 0 12" and zi = 3 and fl = 2
        and nm = "''South''" and objs = "write_point 1 58 vav3_points"]
      sync_frame[where s = BuildingState_init and e = "quiet_tick 0 12"
        and objs = chiller_points_disabled]
      sync_frame[where s = BuildingState_init and e = "quiet_tick 0 12"
        and objs = "write_point 2 500 (Meter_create_objects BuildingState_init)"]
    unfolding AHU_update_objects_ok[OF a] VAV_update_objects_ok[OF v init_ok z] l
    by (simp add: the_state_def)
qed

lemma py_int_05: "py_int ''05'' = Some 5"
  by (simp add: py_int_def py_strip_def is_py_space_def parse_unsigned_def is_digit_def
      digit_value_def)

text \<open>
  Claim C5 fails on the code. The selector \<^verbatim>\<open>vav05\<close> is none of the nine documented
  selectors, yet \<^verbatim>\<open>BuildingSimulator.__init__\<close> raises nothing for it: the branch for
  the prefix \<^verbatim>\<open>vav\<close> hands the rest of the text to \<^verbatim>\<open>int\<close> and checks neither its
  form nor its range, so the profile of zone 5 is constructed and its six objects, with
  instance numbers 51 and 52, are created and registered.
\<close>

theorem lenient_vav_selector:
  "''vav05'' \<notin> set equipment_selectors
   \<and> map_sum fst profile (BuildingSimulator_init ''vav05'') = Inr (VAVProfile 5 3 ''South'')
   \<and> map_sum fst app_objects (BuildingSimulator_init ''vav05'')
       = Inr [(analogInput, 51), (analogValue, 51), (analogOutput, 51),
              (analogInput, 52), (analogOutput, 52), (binaryInput, 51)]"
  by (simp add: equipment_selectors_def BuildingSimulator_init_def select_profile_def py_int_05
      VAV_create_objects_def zone_object_def new_object_def local_object_def
      py_get_def py_index_def Let_def BuildingState_init_def)

lemma known_selectors_construct:
  "map (\<lambda>et. map_sum fst profile (BuildingSimulator_init et)) equipment_selectors =
     [Inr AHUProfile,
      Inr (VAVProfile 0 1 ''North''), Inr (VAVProfile 1 1 ''South''),
      Inr (VAVProfile 2 2 ''North''), Inr (VAVProfile 3 2 ''South''),
      Inr (VAVProfile 4 3 ''North''), Inr (VAVProfile 5 3 ''South''),
      Inr ChillerProfile, Inr MeterProfile]"
  by (simp add: equipment_selectors_def BuildingSimulator_init_def select_profile_def
      py_int_def py_strip_def is_py_space_def parse_unsigned_def is_digit_def digit_value_def
      VAV_create_objects_def zone_object_def new_object_def local_object_def
      py_get_def py_index_def Let_def BuildingState_init_def)

lemma unknown_selector_rejected:
  assumes "et \<noteq> ''ahu''" "take 3 et \<noteq> ''vav''" "et \<noteq> ''chiller''" "et \<noteq> ''meter''"
  shows "BuildingSimulator_init et = Inl (ValueError (''Unknown equipment type: '' @ et), [])"
  using assms by (simp add: BuildingSimulator_init_def select_profile_def)

lemma init_error_registers_nothing:
  "BuildingSimulator_init et = Inl (ex, reg) \<Longrightarrow> reg = []"
  by (auto simp: BuildingSimulator_init_def Let_def split: sum.splits)

lemma vav9_index_error: "BuildingSimulator_init ''vav9'' = Inl (IndexError, [])"
  by (simp add: BuildingSimulator_init_def select_profile_def
      py_int_def py_strip_def is_py_space_def parse_unsigned_def is_digit_def digit_value_def
      VAV_create_objects_def zone_object_def new_object_def local_object_def
      py_get_def py_index_def Let_def BuildingState_init_def)

lemma py_int_minus1: "py_int ''-1'' = Some (- 1)"
  by (simp add: py_int_def py_strip_def is_py_space_def parse_unsigned_def is_digit_def
      digit_value_def)

lemma vav_minus1_value_error:
  "BuildingSimulator_init ''vav-1'' = Inl (ValueError ''instance out of range'', [])"
  by (simp add: BuildingSimulator_init_def select_profile_def py_int_minus1
      VAV_create_objects_def zone_object_def new_object_def
      py_get_def py_index_def Let_def BuildingState_init_def)

lemma update_loop_snoc: "update_loop (es @ [e]) b = update_loop_iteration e (update_loop es b)"
  by (induction es arbitrary: b) simp_all

text \<open>
  Claim C6. An exception raised by the physics update of an iteration, or by the
  synchronisation of the objects after a physics update that returned, is caught: the
  iteration ends with exactly the state (and the objects) as they were when the exception
  was raised, nothing rolled back, and with one more error entry in the log. The loop then
  goes on: whatever happened in the ticks so far, the iteration of the next tick runs from
  the state they left.
\<close>

theorem tick_error_is_contained:
  "(update e (state b) = Inl (ex, s') \<longrightarrow>
      update_loop_iteration e b
        = b\<lparr>state := s', logged := logged b @ [Error_in_update_loop ex]\<rparr>)
   \<and> (update e (state b) = Inr s1
        \<and> update_objects e (profile b) (s1, objects b) = Inl (ex, (s2, objs2)) \<longrightarrow>
      update_loop_iteration e b
        = b\<lparr>state := s2, objects := objs2, logged := logged b @ [Error_in_update_loop ex]\<rparr>)
   \<and> update_loop (es @ [e]) b = update_loop_iteration e (update_loop es b)"
  by (simp add: update_loop_snoc update_loop_iteration_def loop_body_def physics_step_def
      sync_step_def)

lemma broken_update:
  "update (quiet_tick 0 12) (state broken_sim) = Inl (ZeroDivisionError, zero_div_state)"
  by (simp add: broken_sim_def zero_div_state_def update_def update_occupancy_def
      update_outdoor_temp_def update_ahu_def is_business_hours_def quiet_tick_def uniform_def
      Let_def BuildingState_init_def)

lemma noon_update: "update (quiet_tick 0 12) (state short_sim) = Inr noon_state"
  using update_explicit[OF init_ok, of "quiet_tick 0 12"]
  by (simp add: noon_state_def short_sim_def the_state_def)

lemma short_update_objects:
  "update_objects (quiet_tick 0 12) (profile short_sim) (noon_state, objects short_sim)
     = Inl (IndexError, short_sync)"
  by (simp add: short_sim_def short_sync_def ahu_points_def AHU_create_objects_def
      put_point_def take_point_def real_field_def assign_present_value_def local_object_def
      commandable_type_def BuildingState_init_def)

theorem tick_error_is_contained_witness:
  "update (quiet_tick 0 12) (state broken_sim) = Inl (ZeroDivisionError, zero_div_state)
   \<and> update_loop_iteration (quiet_tick 0 12) broken_sim
       = broken_sim\<lparr>state := zero_div_state, logged := [Error_in_update_loop ZeroDivisionError]\<rparr>
   \<and> ahu_mixed_air_temp (state broken_sim) = 65
   \<and> ahu_mixed_air_temp (state (update_loop_iteration (quiet_tick 0 12) broken_sim)) = 75.6
   \<and> update (quiet_tick 0 12) (state short_sim) = Inr noon_state
   \<and> update_objects (quiet_tick 0 12) (profile short_sim) (noon_state, objects short_sim)
       = Inl (IndexError, short_sync)
   \<and> update_loop_iteration (quiet_tick 0 12) short_sim
       = short_sim\<lparr>state := fst short_sync, objects := snd short_sync,
                    logged := [Error_in_update_loop IndexError]\<rparr>
   \<and> update_loop ([quiet_tick 0 12] @ [quiet_tick 0 12]) broken_sim
       = update_loop_iteration (quiet_tick 0 12) (update_loop [quiet_tick 0 12] broken_sim)"
proof -
  have l: "logged broken_sim = []" "logged short_sim = []"
    by (simp_all add: broken_sim_def short_sim_def)
  have m: "ahu_mixed_air_temp (state broken_sim) = 65" "ahu_mixed_air_temp zero_div_state = 75.6"
    by (simp_all add: broken_sim_def zero_div_state_def BuildingState_init_def)
  have p: "short_sync = (fst short_sync, snd short_sync)" by simp
  from tick_error_is_contained[of "quiet_tick 0 12" broken_sim ZeroDivisionError zero_div_state
      _ _ _ "[quiet_tick 0 12]"] broken_update
  have 1: "update_loop_iteration (quiet_tick 0 12) broken_sim
       = broken_sim\<lparr>state := zero_div_state, logged := [Error_in_update_loop ZeroDivisionError]\<rparr>"
    and 3: "update_loop ([quiet_tick 0 12] @ [quiet_tick 0 12]) broken_sim
       = update_loop_iteration (quiet_tick 0 12) (update_loop [quiet_tick 0 12] broken_sim)"
    by (simp_all add: l)
  from tick_error_is_contained[of "quiet_tick 0 12" short_sim IndexError _ noon_state
      "fst short_sync" "snd short_sync"] noon_update short_update_objects
  have 2: "update_loop_iteration (quiet_tick 0 12) short_sim
       = short_sim\<lparr>state := fst short_sync, objects := snd short_sync,
                    logged := [Error_in_update_loop IndexError]\<rparr>"
    by (simp add: l)
  show ?thesis
    using broken_update noon_update short_update_objects 1 2 3 m by simp
qed

lemma find_append_first:
  "List.find P (xs @ ys) = (case List.find P xs of Some x \<Rightarrow> Some x | None \<Rightarrow> List.find P ys)"
  by (induction xs) auto

lemma default_write_array:
  assumes "length pa = 16"
  shows "pa[15 := Some v] = take 15 pa @ [Some v]"
  using assms by (simp add: upd_conv_take_nth_drop)

lemma assign_analog_output:
  assumes "analog_output ob"
  shows "presentValue (assign_present_value v ob) =
           (case commanded_above_default ob of Some w \<Rightarrow> w | None \<Rightarrow> v)"
proof -
  have c: "commandable_type (fst (objectIdentifier ob))" and l: "length (priorityArray ob) = 16"
    using assms by (simp_all add: analog_output_def commandable_type_def)
  show ?thesis
  proof (cases "List.find (\<lambda>x. x \<noteq> None) (take 15 (priorityArray ob))")
    case None
    then show ?thesis
      using c by (simp add: assign_present_value_def command_object_def Let_def
          default_write_array[OF l] find_append_first commanded_above_default_def)
  next
    case (Some x)
    then have "x \<noteq> None" by (auto simp: find_Some_iff)
    then obtain w where "x = Some w" by auto
    with Some show ?thesis
      using c by (simp add: assign_present_value_def command_object_def Let_def
          default_write_array[OF l] find_append_first commanded_above_default_def)
  qed
qed

text \<open>
  Claim C9, as amended. \<^verbatim>\<open>update_objects\<close> of the air handler never reads the fan
  speed point and the cooling valve point (slots 5 and 6) into the state: the state's fan
  speed and cooling valve are unchanged, whatever was written to the points. After it, the
  present value of each of the two points is the value of the state, as the physics of
  the tick computed it, unless a value commanded from outside at a priority above the
  default is in force on the point: the two points are commandable analog outputs, the
  program's assignment acts at the default priority, and such a commanded value stays the
  present value. A value written at the default priority is discarded.
\<close>

theorem ahu_outputs_after_sync:
  assumes "7 \<le> length objs" and "presentValue (objs ! 4) = PVReal sp"
    and "analog_output (objs ! 5)" and "analog_output (objs ! 6)"
  shows "\<exists>s' objs'. update_objects e AHUProfile (s, objs) = Inr (s', objs')
     \<and> ahu_fan_speed s' = ahu_fan_speed s
     \<and> ahu_cooling_valve s' = ahu_cooling_valve s
     \<and> presentValue (objs' ! 5) =
         (case commanded_above_default (objs ! 5) of
            Some w \<Rightarrow> w | None \<Rightarrow> PVReal (ahu_fan_speed s))
     \<and> presentValue (objs' ! 6) =
         (case commanded_above_default (objs ! 6) of
            Some w \<Rightarrow> w | None \<Rightarrow> PVReal (ahu_cooling_valve s))"
proof -
  from AHU_update_objects_ok[OF assms(1,2), of e s] assms(1)
  show ?thesis
    by (simp add: assign_analog_output[OF assms(3)] assign_analog_output[OF assms(4)])
qed

lemma noon_update_init: "update (quiet_tick 0 12) BuildingState_init = Inr noon_state"
  using update_explicit[OF init_ok, of "quiet_tick 0 12"]
  by (simp add: noon_state_def the_state_def)

lemma noon_fan_speed: "ahu_fan_speed noon_state = 75"
  unfolding noon_state_def update_explicit[OF init_ok]
  by (simp add: the_state_def power_chiller_fields vavs_after_fields concrete_defs)

lemma noon_cooling_valve: "ahu_cooling_valve noon_state = 50"
  unfolding noon_state_def update_explicit[OF init_ok]
  by (simp add: the_state_def power_chiller_fields vavs_after_fields concrete_defs)

lemma commanded_points_shape:
  "length commanded_points = 9"
  "presentValue (commanded_points ! 4) = PVReal 55"
  "analog_output (commanded_points ! 5)"
  "analog_output (commanded_points ! 6)"
  by (simp_all add: commanded_points_def command_point_def command_object_def ahu_points_def
      AHU_create_objects_def local_object_def commandable_type_def analog_output_def
      BuildingState_init_def Let_def split: option.splits)

lemma fan_point_commanded:
  "presentValue (commanded_points ! 5) = PVReal 100"
  "commanded_above_default (commanded_points ! 5) = Some (PVReal 100)"
  by (simp_all add: commanded_points_def command_point_def command_object_def ahu_points_def
      AHU_create_objects_def local_object_def commandable_type_def commanded_above_default_def
      BuildingState_init_def Let_def numeral_eq_Suc)

lemma valve_point_written:
  "presentValue (commanded_points ! 6) = PVReal 0"
  "commanded_above_default (commanded_points ! 6) = None"
  by (simp_all add: commanded_points_def command_point_def command_object_def ahu_points_def
      AHU_create_objects_def local_object_def commandable_type_def commanded_above_default_def
      BuildingState_init_def Let_def numeral_eq_Suc)

theorem ahu_outputs_after_sync_witness:
  "7 \<le> length commanded_points \<and> presentValue (commanded_points ! 4) = PVReal 55
   \<and> analog_output (commanded_points ! 5) \<and> analog_output (commanded_points ! 6)
   \<and> commanded_above_default (commanded_points ! 5) = Some (PVReal 100)
   \<and> commanded_above_default (commanded_points ! 6) = None
   \<and> presentValue (commanded_points ! 6) = PVReal 0
   \<and> (\<exists>s' objs'. update_objects (quiet_tick 0 12) AHUProfile (noon_state, commanded_points)
                    = Inr (s', objs')
        \<and> ahu_fan_speed s' = 75 \<and> ahu_cooling_valve s' = 50
        \<and> presentValue (objs' ! 5) = PVReal 100
        \<and> presentValue (objs' ! 6) = PVReal 50)"
proof -
  have l: "7 \<le> length commanded_points" by (simp add: commanded_points_shape)
  from ahu_outputs_after_sync[OF l commanded_points_shape(2,3,4), of "quiet_tick 0 12" noon_state]
  have "\<exists>s' objs'. update_objects (quiet_tick 0 12) AHUProfile (noon_state, commanded_points)
                    = Inr (s', objs')
        \<and> ahu_fan_speed s' = 75 \<and> ahu_cooling_valve s' = 50
        \<and> presentValue (objs' ! 5) = PVReal 100
        \<and> presentValue (objs' ! 6) = PVReal 50"
    by (simp add: fan_point_commanded valve_point_written noon_fan_speed noon_cooling_valve)
  then show ?thesis
    using l commanded_points_shape fan_point_commanded valve_point_written by simp
qed

theorem ahu_outputs_follow_physics_counterexample:
  "update (quiet_tick 0 12) BuildingState_init = Inr noon_state
   \<and> ahu_fan_speed noon_state = 75
   \<and> presentValue (commanded_points ! 5) = PVReal 100
   \<and> \<not> isl (update_objects (quiet_tick 0 12) AHUProfile (noon_state, commanded_points))
   \<and> presentValue (snd (the_state
        (update_objects (quiet_tick 0 12) AHUProfile (noon_state, commanded_points))) ! 5)
       = PVReal 100
   \<and> presentValue (snd (the_state
        (update_objects (quiet_tick 0 12) AHUProfile (noon_state, commanded_points))) ! 5)
       \<noteq> PVReal (ahu_fan_speed noon_state)"
proof -
  have l: "7 \<le> length commanded_points" by (simp add: commanded_points_shape)
  have "presentValue (assign_present_value (PVReal (ahu_fan_speed noon_state))
          (commanded_points ! 5)) = PVReal 100"
    by (simp add: assign_analog_output[OF commanded_points_shape(3)] fan_point_commanded)
  then show ?thesis
    unfolding AHU_update_objects_ok[OF l commanded_points_shape(2)]
    using l noon_update_init noon_fan_speed fan_point_commanded(1)
    by (simp add: the_state_def)
qed

end
